theory Spec2Isabelle
  imports Complex_Main
begin

section \<open>Python values\<close>

text \<open>
  Python floats are modelled as exact rationals: rounding, infinities and NaN are outside
  the model.  A numeric entry of a JSON body or of a broker response is a \<open>pyval\<close>:
  \<open>Absent\<close> is a key that is not in the dict, \<open>Null\<close> is \<open>None\<close>, \<open>Num r\<close> is a
  value that \<open>float()\<close> reads as \<open>r\<close>, and \<open>Junk\<close> is a truthy value that
  \<open>float()\<close> rejects with TypeError or ValueError (a non-numeric string, a list).
\<close>

datatype pyval = Absent | Null | Num rat | Junk

text \<open>\<open>d.get(k)\<close> followed by \<open>is None\<close>.\<close>

fun is_none :: "pyval \<Rightarrow> bool" where
  "is_none Absent = True"
| "is_none Null = True"
| "is_none (Num r) = False"
| "is_none Junk = False"

text \<open>\<open>float(d.get(k))\<close>; \<open>None\<close> is the raised TypeError or ValueError.\<close>

fun py_float :: "pyval \<Rightarrow> rat option" where
  "py_float (Num r) = Some r"
| "py_float Absent = None"
| "py_float Null = None"
| "py_float Junk = None"

text \<open>\<open>float(d.get(k, 0))\<close>: only a missing key takes the default.\<close>

fun py_float_default0 :: "pyval \<Rightarrow> rat option" where
  "py_float_default0 Absent = Some 0"
| "py_float_default0 v = py_float v"

text \<open>\<open>float(d.get(k, 0) or 0)\<close>: a missing key, \<open>None\<close> and zero all give zero.\<close>

fun py_float_or0 :: "pyval \<Rightarrow> rat option" where
  "py_float_or0 Absent = Some 0"
| "py_float_or0 Null = Some 0"
| "py_float_or0 (Num r) = Some r"
| "py_float_or0 Junk = None"

text \<open>Truthiness of a value.\<close>

fun truthy :: "pyval \<Rightarrow> bool" where
  "truthy Absent = False"
| "truthy Null = False"
| "truthy (Num r) = (r \<noteq> 0)"
| "truthy Junk = True"

text \<open>
  A string entry whose default matters: \<open>d.get(k, default)\<close> returns the default only
  when the key is missing, and \<open>None\<close> when the stored value is null.
\<close>

datatype 'a field = Missing | NullVal | Val 'a

fun get_default :: "'a field \<Rightarrow> 'a \<Rightarrow> 'a option" where
  "get_default Missing d = Some d"
| "get_default NullVal d = None"
| "get_default (Val v) d = Some v"

text \<open>\<open>not s\<close> for an optional string: \<open>None\<close> and the empty string are falsy.\<close>

fun falsy_str :: "string option \<Rightarrow> bool" where
  "falsy_str None = True"
| "falsy_str (Some s) = (s = [])"

subsection \<open>ASCII case conversion and substring test\<close>

definition lower_char :: "char \<Rightarrow> char" where
  "lower_char c =
     (case map_of (zip ''ABCDEFGHIJKLMNOPQRSTUVWXYZ'' ''abcdefghijklmnopqrstuvwxyz'') c of
        Some l \<Rightarrow> l | None \<Rightarrow> c)"

definition upper_char :: "char \<Rightarrow> char" where
  "upper_char c =
     (case map_of (zip ''abcdefghijklmnopqrstuvwxyz'' ''ABCDEFGHIJKLMNOPQRSTUVWXYZ'') c of
        Some u \<Rightarrow> u | None \<Rightarrow> c)"

definition lower :: "string \<Rightarrow> string" where
  "lower s = map lower_char s"

definition upper :: "string \<Rightarrow> string" where
  "upper s = map upper_char s"

fun starts_with :: "string \<Rightarrow> string \<Rightarrow> bool" where
  "starts_with s [] = True"
| "starts_with [] (p # ps) = False"
| "starts_with (c # cs) (p # ps) = (c = p \<and> starts_with cs ps)"

text \<open>\<open>sub in s\<close>.\<close>

fun contains :: "string \<Rightarrow> string \<Rightarrow> bool" where
  "contains [] sub = (sub = [])"
| "contains (c # cs) sub = (starts_with (c # cs) sub \<or> contains cs sub)"

section \<open>Market exit engine (services/strategy\_exit\_service.py)\<close>

text \<open>The order dict handed to \<open>place_order\<close>; \<open>quantity\<close> stands for \<open>str(quantity)\<close>.\<close>

record order_req =
  o_strategy :: string
  o_symbol :: string
  o_exchange :: string
  o_action :: string
  o_quantity :: int
  o_price :: string
  o_product :: string
  o_pricetype :: string

text \<open>
  \<open>place_order\<close> returns \<open>(success, response, status_code)\<close>; the response dict is
  read at \<open>status\<close>, \<open>message\<close> and \<open>orderid\<close> (\<open>None\<close> is a missing or null entry).
\<close>

record place_resp =
  p_success :: bool
  p_status :: "string option"
  p_message :: "string field"
  p_orderid :: "string option"

text \<open>The \<open>data\<close> dict of an order status response.\<close>

record order_info =
  order_status :: "string option"
  average_price :: pyval
  price :: pyval
  order_tag :: "string field"

text \<open>
  \<open>get_order_status\<close> returns \<open>(success, status_response, _)\<close>; \<open>s_data = None\<close>
  is a response without a \<open>data\<close> entry, read as the empty dict.
\<close>

record status_resp =
  s_success :: bool
  s_status :: "string option"
  s_data :: "order_info option"

text \<open>\<open>get_quotes\<close> returns \<open>(success, quotes_response, _)\<close>.\<close>

record quotes_resp =
  q_success :: bool
  q_status :: "string option"
  q_ltp :: pyval

text \<open>
  The collaborators of the engine.  The broker's answer to the \<open>k\<close>-th status poll
  (counted from 0) is \<open>status_replies k\<close>.
\<close>

record broker =
  analyze_mode :: bool
  place_reply :: "order_req \<Rightarrow> place_resp"
  status_replies :: "nat \<Rightarrow> status_resp"
  ltp_value :: "rat option"
  quotes_reply :: quotes_resp

text \<open>Calls made to the collaborators, in order.\<close>

datatype event =
    EvPlaceOrder order_req
  | EvSleep rat
  | EvGetOrderStatus string
  | EvGetLtp string string
  | EvGetQuotes string string
  | EvManualExit string string "rat option" string nat
  | EvCreateOverride string string string "rat option"

text \<open>The message of the returned triple, with the interpolated values as arguments.\<close>

datatype exit_msg =
    PlaceFailed "string option"
  | NoOrderId
  | InvalidFillPrice rat
  | Exited rat
  | OrderEnded string "string option"
  | Timeout rat
  | NoLtp string string
  | SandboxPlaceFailed "string option"
  | ExitedAnalyzer rat
  | Unexpected

text \<open>
  The returned triple \<open>(success, fill_price, message)\<close>; \<open>Raised\<close> is an exception
  leaving the function.
\<close>

datatype outcome = Returned bool "rat option" exit_msg | Raised

definition market_order :: "string \<Rightarrow> string \<Rightarrow> string \<Rightarrow> int \<Rightarrow> string \<Rightarrow> order_req" where
  "market_order symbol exchange product quantity action =
     \<lparr> o_strategy = ''StrategyExit'', o_symbol = symbol, o_exchange = exchange,
       o_action = action, o_quantity = quantity, o_price = ''0'', o_product = product,
       o_pricetype = ''MARKET'' \<rparr>"

text \<open>The body of one iteration of the poll loop, after the status call has returned.\<close>

datatype poll_step = Continue | Stop outcome

definition read_order_status :: "status_resp \<Rightarrow> poll_step" where
  "read_order_status r =
     (if \<not> s_success r \<or> s_status r \<noteq> Some ''success'' then Continue
      else
        let od = (case s_data r of
                    None \<Rightarrow> \<lparr> order_status = None, average_price = Absent,
                               price = Absent, order_tag = Missing \<rparr>
                  | Some d \<Rightarrow> d);
            st = lower (case order_status od of None \<Rightarrow> [] | Some s \<Rightarrow> s)
        in if st = ''complete'' then
             (case py_float_default0 (average_price od) of
                None \<Rightarrow> Stop Raised
              | Some fp \<Rightarrow>
                  if fp \<le> 0 then
                    (case py_float_default0 (price od) of
                       None \<Rightarrow> Stop Raised
                     | Some fp2 \<Rightarrow>
                         if fp2 \<le> 0 then Stop (Returned False None (InvalidFillPrice fp2))
                         else Stop (Returned True (Some fp2) (Exited fp2)))
                  else Stop (Returned True (Some fp) (Exited fp)))
           else if st = ''rejected'' \<or> st = ''cancelled'' then
             Stop (Returned False None (OrderEnded st (get_default (order_tag od) ''No reason provided'')))
           else Continue)"

text \<open>
  \<open>for attempt in range(max_retries)\<close>: \<open>poll_loop b oid interval retries attempt n\<close>
  runs the \<open>n\<close> iterations that remain, the next one being number \<open>attempt\<close>.
\<close>

fun poll_loop :: "broker \<Rightarrow> string \<Rightarrow> rat \<Rightarrow> int \<Rightarrow> nat \<Rightarrow> nat \<Rightarrow> outcome \<times> event list" where
  "poll_loop b oid interval retries attempt 0 =
     (Returned False None (Timeout (of_int retries * interval)), [])"
| "poll_loop b oid interval retries attempt (Suc n) =
     (case read_order_status (status_replies b attempt) of
        Stop res \<Rightarrow> (res, [EvSleep interval, EvGetOrderStatus oid])
      | Continue \<Rightarrow>
          (let (res, evs) = poll_loop b oid interval retries (Suc attempt) n
           in (res, EvSleep interval # EvGetOrderStatus oid # evs)))"

definition execute_live_market_exit ::
  "broker \<Rightarrow> string \<Rightarrow> string \<Rightarrow> string \<Rightarrow> int \<Rightarrow> string \<Rightarrow> int \<Rightarrow> rat \<Rightarrow> outcome \<times> event list" where
  "execute_live_market_exit b symbol exchange product quantity action max_retries retry_interval =
     (let od = market_order symbol exchange product quantity action;
          r = place_reply b od
      in if \<not> p_success r \<or> p_status r \<noteq> Some ''success'' then
           (Returned False None
              (PlaceFailed (get_default (p_message r) ''Failed to place market exit order'')),
            [EvPlaceOrder od])
         else if falsy_str (p_orderid r) then
           (Returned False None NoOrderId, [EvPlaceOrder od])
         else
           (let (res, evs) = poll_loop b (the (p_orderid r)) retry_interval max_retries 0
                               (nat max_retries)
            in (res, EvPlaceOrder od # evs)))"

definition execute_sandbox_market_exit ::
  "broker \<Rightarrow> string \<Rightarrow> string \<Rightarrow> string \<Rightarrow> int \<Rightarrow> string \<Rightarrow> outcome \<times> event list" where
  "execute_sandbox_market_exit b symbol exchange product quantity action =
     (let ltp0 = ltp_value b;
          need_quotes = (case ltp0 of None \<Rightarrow> True | Some l \<Rightarrow> l \<le> 0);
          evs0 = [EvGetLtp symbol exchange] @ (if need_quotes then [EvGetQuotes symbol exchange] else []);
          resolved =
            (if need_quotes then
               (let q = quotes_reply b in
                if q_success q \<and> q_status q = Some ''success'' then
                  (if truthy (q_ltp q) then
                     (case py_float (q_ltp q) of
                        None \<Rightarrow> Inl Raised
                      | Some l \<Rightarrow>
                          if l \<le> 0 then Inl (Returned False None (NoLtp symbol exchange))
                          else Inr l)
                   else Inl (Returned False None (NoLtp symbol exchange)))
                else Inl (Returned False None (NoLtp symbol exchange)))
             else Inr (the ltp0))
      in case resolved of
           Inl res \<Rightarrow> (res, evs0)
         | Inr ltp \<Rightarrow>
             (let od = market_order symbol exchange product quantity action;
                  r = place_reply b od
              in if \<not> p_success r \<or> (p_status r \<noteq> Some ''success'' \<and> p_status r \<noteq> Some ''analyze'') then
                   (Returned False None
                      (SandboxPlaceFailed (get_default (p_message r) ''Failed to place sandbox exit order'')),
                    evs0 @ [EvPlaceOrder od])
                 else (Returned True (Some ltp) (ExitedAnalyzer ltp), evs0 @ [EvPlaceOrder od])))"

text \<open>
  \<open>execute_market_exit\<close>: the exit action is the opposite of the leg's side; an
  exception of either branch is caught and becomes a failed triple.  The result is the
  triple \<open>(success, fill_price, message)\<close> and the calls made.
\<close>

definition execute_market_exit ::
  "broker \<Rightarrow> string \<Rightarrow> string \<Rightarrow> string \<Rightarrow> int \<Rightarrow> string \<Rightarrow> int \<Rightarrow> rat \<Rightarrow>
     (bool \<times> rat option \<times> exit_msg) \<times> event list" where
  "execute_market_exit b leg_symbol leg_exchange leg_product leg_quantity leg_side max_retries retry_interval =
     (let exit_action = (if leg_side = ''BUY'' then ''SELL'' else ''BUY'');
          (res, evs) =
            (if analyze_mode b then
               execute_sandbox_market_exit b leg_symbol leg_exchange leg_product leg_quantity exit_action
             else
               execute_live_market_exit b leg_symbol leg_exchange leg_product leg_quantity exit_action
                 max_retries retry_interval)
      in case res of
           Raised \<Rightarrow> ((False, None, Unexpected), evs)
         | Returned ok fp m \<Rightarrow> ((ok, fp, m), evs))"

subsection \<open>Reading a poll transcript\<close>







subsection \<open>Sample brokers\<close>


definition fetch_error_reply :: status_resp where
  "fetch_error_reply = \<lparr> s_success = False, s_status = Some ''error'', s_data = None \<rparr>"

definition live_broker :: "(nat \<Rightarrow> status_resp) \<Rightarrow> broker" where
  "live_broker replies =
     \<lparr> analyze_mode = False,
       place_reply = (\<lambda>od. \<lparr> p_success = True, p_status = Some ''success'',
                              p_message = Missing, p_orderid = Some ''OID1'' \<rparr>),
       status_replies = replies, ltp_value = None,
       quotes_reply = \<lparr> q_success = False, q_status = None, q_ltp = Absent \<rparr> \<rparr>"

section \<open>Strategy state (blueprints/strategy\_state.py)\<close>

text \<open>
  A leg dict of the stored state.  An optional entry is \<open>None\<close> when the key is missing
  or its value is null; \<open>l_leg_type\<close> and \<open>l_unrealized_pnl\<close> keep the two apart because
  the code reads them with a default.  Stored numbers are numbers: the state comes from
  the state database.
\<close>

record leg =
  l_symbol :: "string option"
  l_exchange :: "string option"
  l_product :: "string option"
  l_quantity :: "int option"
  l_side :: "string option"
  l_entry_price :: "rat option"
  l_entry_time :: "nat option"
  l_sl_price :: "rat option"
  l_target_price :: "rat option"
  l_sl_percent :: "rat option"
  l_target_percent :: "rat option"
  l_leg_pair_name :: "string option"
  l_is_main_leg :: "bool option"
  l_leg_type :: "string field"
  l_status :: "string option"
  l_unrealized_pnl :: "rat field"
  l_reentry_limit :: "int option"
  l_reexecute_limit :: "int option"
  l_wait_trade_percent :: pyval
  l_wait_baseline_price :: pyval

text \<open>An entry of \<open>trade_history\<close>.\<close>

record trade =
  t_leg_key :: string
  t_exit_price :: "rat option"
  t_exit_status :: string
  t_exit_time :: nat
  t_pnl :: "rat field"

text \<open>
  A strategy state dict.  \<open>st_legs\<close> is the \<open>legs\<close> dict in insertion order, a null
  leg being \<open>None\<close>; a missing or null \<open>legs\<close> or \<open>trade_history\<close> is the empty list.
\<close>

record strategy_state =
  st_status :: "string field"
  st_legs :: "(string \<times> leg option) list"
  st_trade_history :: "trade option list"
  st_config_product :: "string option"

definition empty_leg :: leg where
  "empty_leg =
     \<lparr> l_symbol = None, l_exchange = None, l_product = None, l_quantity = None, l_side = None,
       l_entry_price = None, l_entry_time = None, l_sl_price = None, l_target_price = None,
       l_sl_percent = None, l_target_percent = None, l_leg_pair_name = None,
       l_is_main_leg = None, l_leg_type = Missing, l_status = None, l_unrealized_pnl = Missing,
       l_reentry_limit = None, l_reexecute_limit = None, l_wait_trade_percent = Absent,
       l_wait_baseline_price = Absent \<rparr>"

text \<open>\<open>leg or {}\<close>.\<close>

fun leg_or_empty :: "leg option \<Rightarrow> leg" where
  "leg_or_empty None = empty_leg"
| "leg_or_empty (Some l) = l"

text \<open>\<open>float(d.get(k, 0) or 0)\<close> on a stored number.\<close>

fun num_or0 :: "rat field \<Rightarrow> rat" where
  "num_or0 Missing = 0"
| "num_or0 NullVal = 0"
| "num_or0 (Val r) = r"

text \<open>\<open>(t or {}).get('pnl', 0) or 0\<close>.\<close>

fun trade_pnl :: "trade option \<Rightarrow> rat" where
  "trade_pnl None = 0"
| "trade_pnl (Some t) = num_or0 (t_pnl t)"

subsection \<open>compute\_strategy\_state\_summary\<close>

definition OPEN_LEG_STATUSES :: "string set" where
  "OPEN_LEG_STATUSES = {''IN_POSITION'', ''PENDING_ENTRY'', ''PENDING_EXIT''}"

record summary =
  total_realized_pnl :: rat
  total_unrealized_pnl :: rat
  total_pnl :: rat
  trade_history_pnl :: rat
  open_positions_count :: nat
  idle_positions_count :: nat
  total_trades :: nat

text \<open>
  The loop over \<open>legs.items()\<close>; the accumulator is
  \<open>(total_unrealized_pnl, open_positions_count, idle_positions_count)\<close>.
\<close>

fun legs_loop :: "(string \<times> leg option) list \<Rightarrow> rat \<times> nat \<times> nat \<Rightarrow> rat \<times> nat \<times> nat" where
  "legs_loop [] acc = acc"
| "legs_loop ((k, lg) # rest) (u, n_open, n_idle) =
     (let leg_status = l_status (leg_or_empty lg) in
      if leg_status \<in> Some ` OPEN_LEG_STATUSES then
        legs_loop rest (u + num_or0 (l_unrealized_pnl (leg_or_empty lg)), n_open + 1, n_idle)
      else if leg_status = Some ''IDLE'' then legs_loop rest (u, n_open, n_idle + 1)
      else legs_loop rest (u, n_open, n_idle))"

text \<open>\<open>sum(... for t in trade_history)\<close>: the builtin adds from the left, starting at 0.\<close>

definition sum_pnl :: "trade option list \<Rightarrow> rat" where
  "sum_pnl ts = foldl (\<lambda>acc t. acc + trade_pnl t) 0 ts"

definition compute_strategy_state_summary :: "strategy_state \<Rightarrow> summary" where
  "compute_strategy_state_summary state =
     (let legs = st_legs state;
          trade_history = st_trade_history state;
          (u, n_open, n_idle) = legs_loop legs (0, 0, 0);
          realized = sum_pnl trade_history
      in \<lparr> total_realized_pnl = realized,
           total_unrealized_pnl = u,
           total_pnl = realized + u,
           trade_history_pnl = realized,
           open_positions_count = n_open,
           idle_positions_count = n_idle,
           total_trades = length trade_history \<rparr>)"

subsection \<open>The state store\<close>

text \<open>
  The store of \<open>database.strategy_state_db\<close>: the strategy states by instance id and
  the overrides created so far.
\<close>

record override =
  ov_instance_id :: string
  ov_leg_key :: string
  ov_type :: string
  ov_new_value :: "rat option"

record store =
  states :: "string \<Rightarrow> strategy_state option"
  overrides :: "override list"

datatype db_error = DuplicateLegError | NotFoundError | DbNotFoundError | DbError

text \<open>
  The collaborators of the endpoints besides the store: the broker, the session's user,
  the API key lookup, the clock, the faults of the database (\<open>write_fault\<close> is raised
  by a call that changes a strategy state, \<open>override_fault\<close> makes
  \<open>create_strategy_override\<close> raise), and the rule by which the database computes the
  P\&L of a closed trade.
\<close>

record env =
  e_broker :: broker
  e_session_user :: "string option"
  e_api_key :: "string \<Rightarrow> string option"
  e_now :: nat
  e_write_fault :: "db_error option"
  e_override_fault :: bool
  e_pnl :: "leg \<Rightarrow> rat option \<Rightarrow> rat field"

text \<open>The arguments of \<open>add_manual_strategy_leg\<close>.\<close>

record leg_args =
  a_leg_key :: string
  a_symbol :: string
  a_exchange :: string
  a_product :: string
  a_quantity :: int
  a_side :: string
  a_entry_price :: "rat option"
  a_entry_time :: nat
  a_sl_price :: "rat option"
  a_target_price :: "rat option"
  a_leg_pair_name :: "string option"
  a_is_main_leg :: bool
  a_sl_percent :: "rat option"
  a_target_percent :: "rat option"
  a_reentry_limit :: "int option"
  a_reexecute_limit :: "int option"
  a_status :: string
  a_wait_trade_percent :: pyval
  a_wait_baseline_price :: pyval

definition leg_of_args :: "leg_args \<Rightarrow> leg" where
  "leg_of_args a =
     \<lparr> l_symbol = Some (a_symbol a), l_exchange = Some (a_exchange a),
       l_product = Some (a_product a), l_quantity = Some (a_quantity a),
       l_side = Some (a_side a), l_entry_price = a_entry_price a,
       l_entry_time = Some (a_entry_time a), l_sl_price = a_sl_price a,
       l_target_price = a_target_price a, l_sl_percent = a_sl_percent a,
       l_target_percent = a_target_percent a, l_leg_pair_name = a_leg_pair_name a,
       l_is_main_leg = Some (a_is_main_leg a), l_leg_type = Missing,
       l_status = Some (a_status a), l_unrealized_pnl = Missing,
       l_reentry_limit = a_reentry_limit a, l_reexecute_limit = a_reexecute_limit a,
       l_wait_trade_percent = a_wait_trade_percent a,
       l_wait_baseline_price = a_wait_baseline_price a \<rparr>"

text \<open>
  Modelled from the spec: \<open>add_manual_strategy_leg\<close> of \<open>database.strategy_state_db\<close>,
  which is not among the sources.  The spec: it fails with StateNotFound if the instance
  id does not exist, fails with DuplicateLeg if the leg key already exists in the strategy
  rather than overwriting, and on success persists the new leg and returns it; a store failure is surfaced.
\<close>

definition add_manual_strategy_leg :: "env \<Rightarrow> store \<Rightarrow> string \<Rightarrow> leg_args \<Rightarrow> (db_error + leg) \<times> store" where
  "add_manual_strategy_leg e s instance_id a =
     (case e_write_fault e of
        Some f \<Rightarrow> (Inl f, s)
      | None \<Rightarrow>
          (case states s instance_id of
             None \<Rightarrow> (Inl NotFoundError, s)
           | Some st \<Rightarrow>
               if a_leg_key a \<in> fst ` set (st_legs st) then (Inl DuplicateLegError, s)
               else
                 (Inr (leg_of_args a),
                  s\<lparr>states := (states s)(instance_id \<mapsto>
                       st\<lparr>st_legs := st_legs st @ [(a_leg_key a, Some (leg_of_args a))]\<rparr>)\<rparr>)))"

text \<open>Replacing the value stored under a key of the \<open>legs\<close> dict.\<close>

fun update_leg :: "string \<Rightarrow> leg option \<Rightarrow> (string \<times> leg option) list \<Rightarrow> (string \<times> leg option) list" where
  "update_leg k v [] = []"
| "update_leg k v ((k', v') # rest) =
     (if k' = k then (k', v) # rest else (k', v') # update_leg k v rest)"

text \<open>
  Modelled from the spec: \<open>manual_exit_strategy_leg\<close> of \<open>database.strategy_state_db\<close>,
  which is not among the sources.  The spec: the leg transitions to the terminal status,
  a ClosedTrade (leg key, exit price, exit status, exit time, pnl computed from
  entry, exit, side and quantity) is appended to the trade history, both or neither;
  the call answers NotFound when the instance or the leg does not exist.  The P\&L rule
  is the collaborator \<open>e_pnl\<close>.
\<close>

definition manual_exit_strategy_leg ::
  "env \<Rightarrow> store \<Rightarrow> string \<Rightarrow> string \<Rightarrow> rat option \<Rightarrow> string \<Rightarrow> nat \<Rightarrow> (db_error + strategy_state) \<times> store" where
  "manual_exit_strategy_leg e s instance_id leg_key exit_price exit_status exit_time =
     (case e_write_fault e of
        Some f \<Rightarrow> (Inl f, s)
      | None \<Rightarrow>
          (case states s instance_id of
             None \<Rightarrow> (Inl NotFoundError, s)
           | Some st \<Rightarrow>
               (case map_of (st_legs st) leg_key of
                  None \<Rightarrow> (Inl NotFoundError, s)
                | Some lg \<Rightarrow>
                    (let l = leg_or_empty lg;
                         st' = st\<lparr> st_legs := update_leg leg_key (Some (l\<lparr>l_status := Some exit_status\<rparr>))
                                                (st_legs st),
                                   st_trade_history := st_trade_history st @
                                     [Some \<lparr> t_leg_key = leg_key, t_exit_price = exit_price,
                                             t_exit_status = exit_status, t_exit_time = exit_time,
                                             t_pnl = e_pnl e l exit_price \<rparr>] \<rparr>
                     in (Inr st', s\<lparr>states := (states s)(instance_id \<mapsto> st')\<rparr>)))))"

text \<open>
  Modelled from the spec: \<open>create_strategy_override\<close> of \<open>database.strategy_state_db\<close>,
  which is not among the sources.  The spec: it creates an Override addressed to the
  (instance id, leg key) pair carrying the override type and the new value; \<open>None\<close> is
  the exception of a failed publication.
\<close>

definition create_strategy_override ::
  "env \<Rightarrow> store \<Rightarrow> string \<Rightarrow> string \<Rightarrow> string \<Rightarrow> rat option \<Rightarrow> override option \<times> store" where
  "create_strategy_override e s instance_id leg_key override_type new_value =
     (if e_override_fault e then (None, s)
      else
        (let ov = \<lparr> ov_instance_id = instance_id, ov_leg_key = leg_key,
                    ov_type = override_type, ov_new_value = new_value \<rparr>
         in (Some ov, s\<lparr>overrides := overrides s @ [ov]\<rparr>)))"

text \<open>An HTTP response: the status code and the JSON body.\<close>

datatype 'm response = Response nat 'm


subsection \<open>create\_manual\_leg\_endpoint\<close>

text \<open>
  The JSON body of the manual-leg request.  An optional entry is \<open>None\<close> when the key is
  missing or null (the code reads both as \<open>None\<close>); numeric entries are \<open>pyval\<close>s, where
  \<open>Absent\<close> and \<open>Null\<close> both read as \<open>None\<close>.  Text entries are JSON strings and the
  quantity is a JSON integer: a \<open>side\<close> that is not a string would make \<open>side.upper()\<close>
  raise, which the outermost handler answers with 500, and is outside the model.
\<close>

record leg_request =
  r_leg_key :: "string option"
  r_symbol :: "string option"
  r_exchange :: "string option"
  r_product :: "string option"
  r_quantity :: "int option"
  r_side :: "string option"
  r_entry_price :: pyval
  r_sl_percent :: pyval
  r_target_percent :: pyval
  r_leg_pair_name :: "string option"
  r_is_main_leg :: "bool option"
  r_reentry_limit :: pyval
  r_reexecute_limit :: pyval
  r_mode :: "string field"
  r_wait_trade_percent :: pyval
  r_wait_baseline_price :: pyval

datatype leg_msg =
    MsgBodyRequired
  | MsgModeInvalid
  | MsgFieldRequired string
  | MsgEntryPriceRequired
  | MsgEntryPriceNotNumber
  | MsgSideInvalid
  | MsgWaitPercentNotPositive
  | MsgWaitBaselineRequired
  | MsgWaitInvalid
  | MsgSlNotNumber
  | MsgSlNotPositive
  | MsgTargetNotNumber
  | MsgTargetNotPositive
  | MsgReentryNotInteger
  | MsgReentryNegative
  | MsgReexecuteNotInteger
  | MsgReexecuteNegative
  | MsgDuplicateLeg
  | MsgStateNotFound string
  | MsgDbMissing
  | MsgDbError
  | MsgLegAdded leg

text \<open>\<open>int(v)\<close> of a JSON number truncates towards zero.\<close>

fun py_int :: "pyval \<Rightarrow> int option" where
  "py_int (Num r) = Some (if 0 \<le> r then \<lfloor>r\<rfloor> else \<lceil>r\<rceil>)"
| "py_int Absent = None"
| "py_int Null = None"
| "py_int Junk = None"

text \<open>The loop over \<open>required_fields\<close>: the first required entry that is \<open>None\<close>.\<close>

definition missing_required :: "leg_request \<Rightarrow> string option" where
  "missing_required d =
     (if r_leg_key d = None then Some ''leg_key''
      else if r_symbol d = None then Some ''symbol''
      else if r_exchange d = None then Some ''exchange''
      else if r_product d = None then Some ''product''
      else if r_quantity d = None then Some ''quantity''
      else if r_side d = None then Some ''side''
      else if r_is_main_leg d = None then Some ''is_main_leg''
      else None)"

definition read_entry_price :: "string \<Rightarrow> pyval \<Rightarrow> leg_msg response + rat option" where
  "read_entry_price mode entry_price =
     (if mode = ''NEW'' then
        (if \<not> is_none entry_price then
           (case py_float entry_price of
              None \<Rightarrow> Inl (Response 400 MsgEntryPriceNotNumber)
            | Some ep \<Rightarrow> Inr (Some ep))
         else Inr None)
      else
        (if is_none entry_price then Inl (Response 400 MsgEntryPriceRequired)
         else
           (case py_float entry_price of
              None \<Rightarrow> Inl (Response 400 MsgEntryPriceNotNumber)
            | Some ep \<Rightarrow> Inr (Some ep))))"

definition read_wait :: "string \<Rightarrow> pyval \<Rightarrow> pyval \<Rightarrow> leg_msg response + pyval \<times> pyval" where
  "read_wait mode wait_trade_percent wait_baseline_price =
     (if mode = ''NEW'' \<and> \<not> is_none wait_trade_percent then
        (case py_float wait_trade_percent of
           None \<Rightarrow> Inl (Response 400 MsgWaitInvalid)
         | Some w \<Rightarrow>
             if w \<le> 0 then Inl (Response 400 MsgWaitPercentNotPositive)
             else if is_none wait_baseline_price then Inl (Response 400 MsgWaitBaselineRequired)
             else
               (case py_float wait_baseline_price of
                  None \<Rightarrow> Inl (Response 400 MsgWaitInvalid)
                | Some base \<Rightarrow> Inr (Num w, Num base)))
      else Inr (wait_trade_percent, wait_baseline_price))"

text \<open>The stop-loss block: the result is \<open>(sl_percent, sl_value)\<close>.\<close>

definition read_sl :: "rat option \<Rightarrow> string \<Rightarrow> pyval \<Rightarrow> leg_msg response + rat option \<times> rat option" where
  "read_sl entry_price side sl_percent =
     (case entry_price of
        Some ep \<Rightarrow>
          (if \<not> is_none sl_percent then
             (case py_float sl_percent of
                None \<Rightarrow> Inl (Response 400 MsgSlNotNumber)
              | Some p \<Rightarrow>
                  if p \<le> 0 then Inl (Response 400 MsgSlNotPositive)
                  else if side = ''BUY'' then Inr (Some p, Some (ep * (1 - p)))
                  else Inr (Some p, Some (ep * (1 + p))))
           else Inr (None, None))
      | None \<Rightarrow>
          (if \<not> is_none sl_percent then
             (case py_float sl_percent of
                None \<Rightarrow> Inl (Response 400 MsgSlNotPositive)
              | Some p \<Rightarrow>
                  if p \<le> 0 then Inl (Response 400 MsgSlNotPositive)
                  else Inr (Some p, None))
           else Inr (None, None)))"

text \<open>The target block: the result is \<open>(target_percent, target_value)\<close>.\<close>

definition read_target :: "rat option \<Rightarrow> string \<Rightarrow> pyval \<Rightarrow> leg_msg response + rat option \<times> rat option" where
  "read_target entry_price side target_percent =
     (if \<not> is_none target_percent \<and> entry_price \<noteq> None then
        (case py_float target_percent of
           None \<Rightarrow> Inl (Response 400 MsgTargetNotNumber)
         | Some p \<Rightarrow>
             if p \<le> 0 then Inl (Response 400 MsgTargetNotPositive)
             else if side = ''BUY'' then Inr (Some p, map_option (\<lambda>ep. ep * (1 + p)) entry_price)
             else Inr (Some p, map_option (\<lambda>ep. ep * (1 - p)) entry_price))
      else if \<not> is_none target_percent then
        (case py_float target_percent of
           None \<Rightarrow> Inl (Response 400 MsgTargetNotPositive)
         | Some p \<Rightarrow>
             if p \<le> 0 then Inl (Response 400 MsgTargetNotPositive)
             else Inr (Some p, None))
      else Inr (None, None))"

definition read_limit :: "leg_msg \<Rightarrow> leg_msg \<Rightarrow> pyval \<Rightarrow> leg_msg response + int option" where
  "read_limit not_integer negative v =
     (if \<not> is_none v then
        (case py_int v of
           None \<Rightarrow> Inl (Response 400 not_integer)
         | Some n \<Rightarrow> if n < 0 then Inl (Response 400 negative) else Inr (Some n))
      else Inr None)"

text \<open>
  The value of an entry that the required-fields loop has found present; \<open>bool(v)\<close>
  of the optional \<open>is_main_leg\<close>.
\<close>

fun str_of :: "string option \<Rightarrow> string" where
  "str_of None = []"
| "str_of (Some v) = v"

fun int_of :: "int option \<Rightarrow> int" where
  "int_of None = 0"
| "int_of (Some v) = v"

fun py_bool :: "bool option \<Rightarrow> bool" where
  "py_bool None = False"
| "py_bool (Some v) = v"

text \<open>
  The endpoint up to the call of \<open>add_manual_strategy_leg\<close>: either the rejection that
  is returned, or the arguments of that call.
\<close>

definition prepare_manual_leg :: "env \<Rightarrow> leg_request option \<Rightarrow> leg_msg response + leg_args" where
  "prepare_manual_leg e body =
     (case body of
        None \<Rightarrow> Inl (Response 400 MsgBodyRequired)
      | Some d \<Rightarrow>
     (case get_default (r_mode d) ''TRACK'' of
        None \<Rightarrow> Inl (Response 400 MsgModeInvalid)
      | Some mode \<Rightarrow>
     if mode \<noteq> ''TRACK'' \<and> mode \<noteq> ''NEW'' then Inl (Response 400 MsgModeInvalid)
     else
     (case missing_required d of
        Some f \<Rightarrow> Inl (Response 400 (MsgFieldRequired f))
      | None \<Rightarrow>
     (case read_entry_price mode (r_entry_price d) of
        Inl resp \<Rightarrow> Inl resp
      | Inr entry_price \<Rightarrow>
     (let side = upper (str_of (r_side d)) in
     if side \<noteq> ''BUY'' \<and> side \<noteq> ''SELL'' then Inl (Response 400 MsgSideInvalid)
     else
     (let status = (if mode = ''NEW'' then ''PENDING_ENTRY'' else ''IN_POSITION'') in
     (case read_wait mode (r_wait_trade_percent d) (r_wait_baseline_price d) of
        Inl resp \<Rightarrow> Inl resp
      | Inr (wait_trade_percent, wait_baseline_price) \<Rightarrow>
     (case read_sl entry_price side (r_sl_percent d) of
        Inl resp \<Rightarrow> Inl resp
      | Inr (sl_percent, sl_value) \<Rightarrow>
     (case read_target entry_price side (r_target_percent d) of
        Inl resp \<Rightarrow> Inl resp
      | Inr (target_percent, target_value) \<Rightarrow>
     (case read_limit MsgReentryNotInteger MsgReentryNegative (r_reentry_limit d) of
        Inl resp \<Rightarrow> Inl resp
      | Inr reentry_limit \<Rightarrow>
     (case read_limit MsgReexecuteNotInteger MsgReexecuteNegative (r_reexecute_limit d) of
        Inl resp \<Rightarrow> Inl resp
      | Inr reexecute_limit \<Rightarrow>
          Inr \<lparr> a_leg_key = str_of (r_leg_key d),
                a_symbol = str_of (r_symbol d),
                a_exchange = str_of (r_exchange d),
                a_product = str_of (r_product d),
                a_quantity = int_of (r_quantity d),
                a_side = side,
                a_entry_price = entry_price,
                a_entry_time = e_now e,
                a_sl_price = sl_value,
                a_target_price = target_value,
                a_leg_pair_name = r_leg_pair_name d,
                a_is_main_leg = py_bool (r_is_main_leg d),
                a_sl_percent = sl_percent,
                a_target_percent = target_percent,
                a_reentry_limit = reentry_limit,
                a_reexecute_limit = reexecute_limit,
                a_status = status,
                a_wait_trade_percent = wait_trade_percent,
                a_wait_baseline_price = wait_baseline_price \<rparr>)))))))))))"

definition create_manual_leg_endpoint ::
  "env \<Rightarrow> store \<Rightarrow> string \<Rightarrow> leg_request option \<Rightarrow> leg_msg response \<times> store" where
  "create_manual_leg_endpoint e s instance_id body =
     (case prepare_manual_leg e body of
        Inl resp \<Rightarrow> (resp, s)
      | Inr a \<Rightarrow>
          (case add_manual_strategy_leg e s instance_id a of
             (Inl DuplicateLegError, s') \<Rightarrow> (Response 409 MsgDuplicateLeg, s')
           | (Inl NotFoundError, s') \<Rightarrow> (Response 404 (MsgStateNotFound instance_id), s')
           | (Inl DbNotFoundError, s') \<Rightarrow> (Response 500 MsgDbMissing, s')
           | (Inl DbError, s') \<Rightarrow> (Response 500 MsgDbError, s')
           | (Inr result, s') \<Rightarrow> (Response 200 (MsgLegAdded result), s')))"

subsection \<open>manual\_exit\_leg\_endpoint\<close>

text \<open>
  The JSON body of the manual-exit request; \<open>x_exit_at_market\<close> is the truthiness of
  the entry (a missing entry is \<open>False\<close>).
\<close>

record exit_request =
  x_exit_price :: pyval
  x_exit_status :: "string option"
  x_exit_at_market :: bool

datatype exit_body =
    XBodyRequired
  | XStatusInvalidMarket
  | XStatusRequired
  | XStatusInvalidPriced
  | XPriceRequired
  | XPriceNotNumber
  | XPriceNotPositive
  | XStateNotFound string
  | XLegNotFound string
  | XNotInPosition "string option"
  | XNoUser
  | XNoApiKey
  | XSymbolRequired
  | XQuantityRequired
  | XSideRequired
  | XMarketExitFailed exit_msg
  | XTargetBuy rat
  | XTargetSell rat
  | XSlBuy rat
  | XSlSell rat
  | XDbMissing
  | XDbError
  | XInternalError
  | XExited string strategy_state

text \<open>How the exit price is obtained: given by the caller, or resolved at the market.\<close>

datatype exit_mode = Priced rat | AtMarket

text \<open>
  The checks of \<open>exit_status\<close> and \<open>exit_price\<close> made before the state is read:
  either the rejection, or the exit status and the mode.
\<close>

definition check_exit_request :: "exit_request \<Rightarrow> exit_body response + string \<times> exit_mode" where
  "check_exit_request d =
     (if x_exit_at_market d then
        (case x_exit_status d of
           None \<Rightarrow> Inr (''MANUAL_EXIT'', AtMarket)
         | Some exit_status \<Rightarrow>
             if exit_status = [] then Inr (''MANUAL_EXIT'', AtMarket)
             else if exit_status \<noteq> ''SL_HIT'' \<and> exit_status \<noteq> ''TARGET_HIT'' \<and>
                     exit_status \<noteq> ''MANUAL_EXIT''
               then Inl (Response 400 XStatusInvalidMarket)
             else Inr (exit_status, AtMarket))
      else
        (case x_exit_status d of
           None \<Rightarrow> Inl (Response 400 XStatusRequired)
         | Some exit_status \<Rightarrow>
             if exit_status = [] then Inl (Response 400 XStatusRequired)
             else if exit_status \<noteq> ''SL_HIT'' \<and> exit_status \<noteq> ''TARGET_HIT''
               then Inl (Response 400 XStatusInvalidPriced)
             else if is_none (x_exit_price d) then Inl (Response 400 XPriceRequired)
             else
               (case py_float (x_exit_price d) of
                  None \<Rightarrow> Inl (Response 400 XPriceNotNumber)
                | Some exit_price \<Rightarrow>
                    if exit_price \<le> 0 then Inl (Response 400 XPriceNotPositive)
                    else Inr (exit_status, Priced exit_price))))"

text \<open>The exchange inferred from the symbol when the leg has none.\<close>

definition infer_exchange :: "string \<Rightarrow> string" where
  "infer_exchange leg_symbol =
     (let symbol_upper = upper leg_symbol in
      if contains symbol_upper ''CE'' \<or> contains symbol_upper ''PE'' then
        (if contains symbol_upper ''SENSEX'' \<or> contains symbol_upper ''BANKEX'' then ''BFO''
         else if contains symbol_upper ''NIFTY'' \<or> contains symbol_upper ''BANKNIFTY'' \<or>
                 contains symbol_upper ''FINNIFTY'' \<or> contains symbol_upper ''MIDCPNIFTY''
           then ''NFO''
         else ''NFO'')
      else ''NSE'')"

text \<open>
  The market-exit block: the session and API key checks, the leg details with their
  fallbacks, and the call of the engine with its default ceiling of 10 polls, 2 seconds
  apart.  The result is the rejection or the fill price, and the calls made.
\<close>

definition market_exit_price ::
  "env \<Rightarrow> strategy_state \<Rightarrow> leg \<Rightarrow> (exit_body response + rat option) \<times> event list" where
  "market_exit_price e state lg =
     (case e_session_user e of
        None \<Rightarrow> (Inl (Response 401 XNoUser), [])
      | Some username \<Rightarrow>
     if username = [] then (Inl (Response 401 XNoUser), [])
     else if falsy_str (e_api_key e username) then (Inl (Response 401 XNoApiKey), [])
     else
     (let leg_product = (if falsy_str (l_product lg) then st_config_product state else l_product lg)
      in
     (case l_symbol lg of
        None \<Rightarrow> (Inl (Response 400 XSymbolRequired), [])
      | Some leg_symbol \<Rightarrow>
     if leg_symbol = [] then (Inl (Response 400 XSymbolRequired), [])
     else
     (case l_quantity lg of
        None \<Rightarrow> (Inl (Response 400 XQuantityRequired), [])
      | Some leg_quantity \<Rightarrow>
     if leg_quantity = 0 \<or> leg_quantity \<le> 0 then (Inl (Response 400 XQuantityRequired), [])
     else
     (case l_side lg of
        None \<Rightarrow> (Inl (Response 400 XSideRequired), [])
      | Some leg_side \<Rightarrow>
     if leg_side = [] then (Inl (Response 400 XSideRequired), [])
     else
     (let leg_exchange = (case l_exchange lg of
                            None \<Rightarrow> infer_exchange leg_symbol
                          | Some x \<Rightarrow> if x = [] then infer_exchange leg_symbol else x);
          leg_product = (case leg_product of
                           None \<Rightarrow> ''MIS''
                         | Some p \<Rightarrow> if p = [] then ''MIS'' else p)
      in
     (case execute_market_exit (e_broker e) leg_symbol leg_exchange leg_product leg_quantity
             leg_side 10 2 of
        ((success, fill_price, message), evs) \<Rightarrow>
          if \<not> success then (Inl (Response 400 (XMarketExitFailed message)), evs)
          else (Inr fill_price, evs))))))))"

text \<open>
  The cross-check of a caller-given exit price against the leg's side and entry price;
  \<open>if entry_price and side\<close> is Python truthiness: a zero entry price and an empty
  side skip the check, as a missing one does.
\<close>

definition check_priced_exit :: "leg \<Rightarrow> string \<Rightarrow> rat \<Rightarrow> exit_body response option" where
  "check_priced_exit lg exit_status exit_price =
     (case (l_entry_price lg, l_side lg) of
        (Some entry_price, Some side) \<Rightarrow>
          if entry_price \<noteq> 0 \<and> side \<noteq> [] then
            (if exit_status = ''TARGET_HIT'' then
               (if side = ''BUY'' \<and> exit_price \<le> entry_price
                  then Some (Response 400 (XTargetBuy entry_price))
                else if side = ''SELL'' \<and> exit_price \<ge> entry_price
                  then Some (Response 400 (XTargetSell entry_price))
                else None)
             else if exit_status = ''SL_HIT'' then
               (if side = ''BUY'' \<and> exit_price \<ge> entry_price
                  then Some (Response 400 (XSlBuy entry_price))
                else if side = ''SELL'' \<and> exit_price \<le> entry_price
                  then Some (Response 400 (XSlSell entry_price))
                else None)
             else None)
          else None
      | _ \<Rightarrow> None)"

text \<open>
  The update of the leg in the database and the MANUAL\_EXIT override for a running
  strategy; an exception of \<open>create_strategy_override\<close> is caught and only logged.
\<close>

definition commit_exit ::
  "env \<Rightarrow> store \<Rightarrow> string \<Rightarrow> string \<Rightarrow> rat option \<Rightarrow> string \<Rightarrow> string option \<Rightarrow> string option \<Rightarrow>
     exit_body response \<times> store \<times> event list" where
  "commit_exit e s instance_id leg_key exit_price exit_status leg_type strategy_status =
     (let call = EvManualExit instance_id leg_key exit_price exit_status (e_now e) in
      case manual_exit_strategy_leg e s instance_id leg_key exit_price exit_status (e_now e) of
        (Inl NotFoundError, s') \<Rightarrow> (Response 404 (XStateNotFound instance_id), s', [call])
      | (Inl DbNotFoundError, s') \<Rightarrow> (Response 500 XDbMissing, s', [call])
      | (Inl DbError, s') \<Rightarrow> (Response 500 XDbError, s', [call])
      | (Inl DuplicateLegError, s') \<Rightarrow> (Response 500 XDbError, s', [call])
      | (Inr result, s') \<Rightarrow>
          if leg_type \<noteq> Some ''MANUAL'' \<and> strategy_status = Some ''RUNNING'' then
            (case create_strategy_override e s' instance_id leg_key ''MANUAL_EXIT'' exit_price of
               (ov, s'') \<Rightarrow>
                 (Response 200 (XExited exit_status result), s'',
                  [call, EvCreateOverride instance_id leg_key ''MANUAL_EXIT'' exit_price]))
          else (Response 200 (XExited exit_status result), s', [call]))"

text \<open>
  The endpoint: the response, the store afterwards and the calls made to the broker,
  the market data and the database's writing functions, in order.  A null leg makes
  \<open>leg.get\<close> raise, which the outermost handler turns into a 500.
\<close>

definition manual_exit_leg_endpoint ::
  "env \<Rightarrow> store \<Rightarrow> string \<Rightarrow> string \<Rightarrow> exit_request option \<Rightarrow>
     exit_body response \<times> store \<times> event list" where
  "manual_exit_leg_endpoint e s instance_id leg_key body =
     (case body of
        None \<Rightarrow> (Response 400 XBodyRequired, s, [])
      | Some d \<Rightarrow>
     (case check_exit_request d of
        Inl resp \<Rightarrow> (resp, s, [])
      | Inr (exit_status, mode) \<Rightarrow>
     (case states s instance_id of
        None \<Rightarrow> (Response 404 (XStateNotFound instance_id), s, [])
      | Some state \<Rightarrow>
     (case map_of (st_legs state) leg_key of
        None \<Rightarrow> (Response 404 (XLegNotFound leg_key), s, [])
      | Some None \<Rightarrow> (Response 500 XInternalError, s, [])
      | Some (Some lg) \<Rightarrow>
     if l_status lg \<noteq> Some ''IN_POSITION'' then (Response 400 (XNotInPosition (l_status lg)), s, [])
     else
     (let leg_type = get_default (l_leg_type lg) ''MANUAL'';
          strategy_status = get_default (st_status state) ''COMPLETED''
      in
     (case mode of
        AtMarket \<Rightarrow>
          (case market_exit_price e state lg of
             (Inl resp, evs) \<Rightarrow> (resp, s, evs)
           | (Inr exit_price, evs) \<Rightarrow>
               (case commit_exit e s instance_id leg_key exit_price exit_status leg_type
                       strategy_status of
                  (resp, s', evs') \<Rightarrow> (resp, s', evs @ evs')))
      | Priced exit_price \<Rightarrow>
          (case check_priced_exit lg exit_status exit_price of
             Some resp \<Rightarrow> (resp, s, [])
           | None \<Rightarrow>
               commit_exit e s instance_id leg_key (Some exit_price) exit_status leg_type
                 strategy_status)))))))"

subsection \<open>Reading a summary\<close>

text \<open>
  The legs that count as open and as idle, and what a leg contributes to the unrealized
  P\&L, in the words of the P\&L rules.
\<close>

definition is_open_leg :: "leg option \<Rightarrow> bool" where
  "is_open_leg lg =
     (l_status (leg_or_empty lg) = Some ''IN_POSITION'' \<or>
      l_status (leg_or_empty lg) = Some ''PENDING_ENTRY'' \<or>
      l_status (leg_or_empty lg) = Some ''PENDING_EXIT'')"

definition is_idle_leg :: "leg option \<Rightarrow> bool" where
  "is_idle_leg lg = (l_status (leg_or_empty lg) = Some ''IDLE'')"

definition leg_unrealized :: "leg option \<Rightarrow> rat" where
  "leg_unrealized lg = num_or0 (l_unrealized_pnl (leg_or_empty lg))"

subsection \<open>Reading a prepared leg\<close>


text \<open>Sample collaborators, requests and stores.\<close>

definition sample_env :: env where
  "sample_env =
     \<lparr> e_broker = live_broker (\<lambda>i. fetch_error_reply),
       e_session_user = Some ''trader'',
       e_api_key = (\<lambda>u. Some ''key''),
       e_now = 0,
       e_write_fault = None,
       e_override_fault = False,
       e_pnl = (\<lambda>l p. Missing) \<rparr>"

definition track_request :: "string \<Rightarrow> pyval \<Rightarrow> pyval \<Rightarrow> pyval \<Rightarrow> leg_request" where
  "track_request side entry_price sl_percent target_percent =
     \<lparr> r_leg_key = Some ''MANUAL_1'', r_symbol = Some ''SENSEX05FEB2682200CE'',
       r_exchange = Some ''BFO'', r_product = Some ''NRML'', r_quantity = Some 200,
       r_side = Some side, r_entry_price = entry_price, r_sl_percent = sl_percent,
       r_target_percent = target_percent, r_leg_pair_name = None,
       r_is_main_leg = Some False, r_reentry_limit = Absent, r_reexecute_limit = Absent,
       r_mode = Missing, r_wait_trade_percent = Absent, r_wait_baseline_price = Absent \<rparr>"

definition track_args :: "string \<Rightarrow> rat option \<Rightarrow> rat option \<Rightarrow> rat option \<Rightarrow> rat option \<Rightarrow> rat option \<Rightarrow> leg_args" where
  "track_args side entry_price sl_percent sl_price target_percent target_price =
     \<lparr> a_leg_key = ''MANUAL_1'', a_symbol = ''SENSEX05FEB2682200CE'', a_exchange = ''BFO'',
       a_product = ''NRML'', a_quantity = 200, a_side = side, a_entry_price = entry_price,
       a_entry_time = 0, a_sl_price = sl_price, a_target_price = target_price,
       a_leg_pair_name = None, a_is_main_leg = False, a_sl_percent = sl_percent,
       a_target_percent = target_percent, a_reentry_limit = None, a_reexecute_limit = None,
       a_status = ''IN_POSITION'', a_wait_trade_percent = Absent,
       a_wait_baseline_price = Absent \<rparr>"

definition sample_state :: strategy_state where
  "sample_state =
     \<lparr> st_status = Val ''RUNNING'',
       st_legs = [(''MANUAL_1'', Some (empty_leg\<lparr>l_status := Some ''IN_POSITION''\<rparr>))],
       st_trade_history = [],
       st_config_product = None \<rparr>"

definition sample_store :: store where
  "sample_store = \<lparr> states = [''S1'' \<mapsto> sample_state], overrides = [] \<rparr>"

subsection \<open>The sandbox reference price\<close>

text \<open>
  The reference price of a sandbox exit, in the words of the exit rules: the last traded
  price when the lookup gives a positive one, else the \<open>ltp\<close> entry of a successful
  quote lookup when that is a positive number, else none.
\<close>

fun positive :: "rat option \<Rightarrow> rat option" where
  "positive None = None"
| "positive (Some r) = (if 0 < r then Some r else None)"

definition quote_price :: "quotes_resp \<Rightarrow> rat option" where
  "quote_price q =
     (if q_success q \<and> q_status q = Some ''success''
      then (case q_ltp q of Num r \<Rightarrow> Some r | Absent \<Rightarrow> None | Null \<Rightarrow> None | Junk \<Rightarrow> None)
      else None)"

definition reference_price :: "broker \<Rightarrow> rat option" where
  "reference_price b =
     (case positive (ltp_value b) of
        Some l \<Rightarrow> Some l
      | None \<Rightarrow> positive (quote_price (quotes_reply b)))"

definition sandbox_broker :: "rat option \<Rightarrow> pyval \<Rightarrow> string \<Rightarrow> broker" where
  "sandbox_broker ltp quote_ltp place_status =
     \<lparr> analyze_mode = True,
       place_reply = (\<lambda>od. \<lparr> p_success = True, p_status = Some place_status,
                              p_message = Missing, p_orderid = None \<rparr>),
       status_replies = (\<lambda>i. fetch_error_reply),
       ltp_value = ltp,
       quotes_reply = \<lparr> q_success = True, q_status = Some ''success'', q_ltp = quote_ltp \<rparr> \<rparr>"

subsection \<open>Reading a manual exit\<close>

text \<open>
  The exit price agrees with the exit status and the side: a target is above the entry
  price for a BUY leg and below it for a SELL leg, a stop-loss the other way round.
\<close>

definition price_consistent :: "string \<Rightarrow> string \<Rightarrow> rat \<Rightarrow> rat \<Rightarrow> bool" where
  "price_consistent side exit_status exit_price entry_price =
     (exit_status = ''TARGET_HIT'' \<and> side = ''BUY'' \<and> entry_price < exit_price \<or>
      exit_status = ''TARGET_HIT'' \<and> side = ''SELL'' \<and> exit_price < entry_price \<or>
      exit_status = ''SL_HIT'' \<and> side = ''BUY'' \<and> exit_price < entry_price \<or>
      exit_status = ''SL_HIT'' \<and> side = ''SELL'' \<and> entry_price < exit_price)"

text \<open>
  A MANUAL\_EXIT override is due when the leg's type is not MANUAL (a missing type counts
  as MANUAL) and the strategy is RUNNING.
\<close>

definition override_due :: "leg \<Rightarrow> strategy_state \<Rightarrow> bool" where
  "override_due lg state =
     (l_leg_type lg \<noteq> Missing \<and> l_leg_type lg \<noteq> Val ''MANUAL'' \<and> st_status state = Val ''RUNNING'')"

text \<open>The status code of a response.\<close>

fun resp_code :: "'m response \<Rightarrow> nat" where
  "resp_code (Response c m) = c"

text \<open>Sample legs in position, stores holding one such leg, and exit requests.\<close>

definition position_leg :: "string \<Rightarrow> rat \<Rightarrow> string field \<Rightarrow> leg" where
  "position_leg side entry_price leg_type =
     empty_leg \<lparr> l_symbol := Some ''NIFTY24500CE'', l_exchange := Some ''NFO'',
                 l_product := Some ''MIS'', l_quantity := Some 10, l_side := Some side,
                 l_entry_price := Some entry_price, l_leg_type := leg_type,
                 l_status := Some ''IN_POSITION'' \<rparr>"

definition position_state :: "string \<Rightarrow> leg \<Rightarrow> strategy_state" where
  "position_state status lg =
     \<lparr> st_status = Val status, st_legs = [(''L1'', Some lg)], st_trade_history = [],
       st_config_product = None \<rparr>"

definition position_store :: "string \<Rightarrow> leg \<Rightarrow> store" where
  "position_store status lg = \<lparr> states = [''S1'' \<mapsto> position_state status lg], overrides = [] \<rparr>"

definition priced_request :: "string \<Rightarrow> rat \<Rightarrow> exit_request" where
  "priced_request exit_status exit_price =
     \<lparr> x_exit_price = Num exit_price, x_exit_status = Some exit_status, x_exit_at_market = False \<rparr>"

definition market_request :: "string option \<Rightarrow> exit_request" where
  "market_request exit_status =
     \<lparr> x_exit_price = Absent, x_exit_status = exit_status, x_exit_at_market = True \<rparr>"

text \<open>The MANUAL\_EXIT override carrying the exit price.\<close>

definition exit_override :: "string \<Rightarrow> string \<Rightarrow> rat option \<Rightarrow> override" where
  "exit_override instance_id leg_key exit_price =
     \<lparr> ov_instance_id = instance_id, ov_leg_key = leg_key, ov_type = ''MANUAL_EXIT'',
       ov_new_value = exit_price \<rparr>"

text \<open>
  The calls made to the broker and the market data before the exit is committed: those
  of the market exit engine when the request is a market exit, none otherwise.
\<close>

definition broker_events :: "env \<Rightarrow> strategy_state \<Rightarrow> leg \<Rightarrow> exit_request option \<Rightarrow> event list" where
  "broker_events e state lg body =
     (case body of
        None \<Rightarrow> []
      | Some d \<Rightarrow> if x_exit_at_market d then snd (market_exit_price e state lg) else [])"

text \<open>Sample collaborators in analyze mode with a given last traded price.\<close>

definition sandbox_env :: "rat option \<Rightarrow> env" where
  "sandbox_env ltp = sample_env\<lparr>e_broker := sandbox_broker ltp Absent ''analyze''\<rparr>"

section \<open>The live poll loop\<close>













section \<open>The P\&L summary\<close>

lemma legs_loop_acc:
  "legs_loop ls (u, n_open, n_idle) =
     (u + sum_list (map leg_unrealized (filter is_open_leg (map snd ls))),
      n_open + length (filter is_open_leg (map snd ls)),
      n_idle + length (filter is_idle_leg (map snd ls)))"
proof (induction ls arbitrary: u n_open n_idle)
  case Nil
  show ?case by simp
next
  case (Cons kv ls)
  obtain k lg where kv: "kv = (k, lg)" by (cases kv)
  show ?case
    unfolding kv
    by (simp add: Cons.IH is_open_leg_def is_idle_leg_def leg_unrealized_def
        OPEN_LEG_STATUSES_def Let_def image_iff)
qed

lemma sum_pnl_acc: "foldl (\<lambda>acc t. acc + trade_pnl t) a ts = a + sum_list (map trade_pnl ts)"
  by (induction ts arbitrary: a) simp_all

text \<open>
  C2.  For every strategy state the summary's realized P\&L is the sum of \<open>pnl\<close> over
  the entries of the trade history and nothing else; the unrealized P\&L is the sum of
  \<open>unrealized_pnl\<close> over exactly the legs whose status is IN\_POSITION, PENDING\_ENTRY
  or PENDING\_EXIT; the open and idle counts are the numbers of such legs and of IDLE
  legs; \<open>total_trades\<close> is the length of the trade history; the total is realized plus
  unrealized; and a missing or null \<open>pnl\<close> or \<open>unrealized_pnl\<close> counts as zero.
\<close>

theorem summary_partitions_pnl:
  "total_realized_pnl (compute_strategy_state_summary s) =
     sum_list (map trade_pnl (st_trade_history s))
   \<and> total_unrealized_pnl (compute_strategy_state_summary s) =
     sum_list (map leg_unrealized (filter is_open_leg (map snd (st_legs s))))
   \<and> open_positions_count (compute_strategy_state_summary s) =
     length (filter is_open_leg (map snd (st_legs s)))
   \<and> idle_positions_count (compute_strategy_state_summary s) =
     length (filter is_idle_leg (map snd (st_legs s)))
   \<and> total_trades (compute_strategy_state_summary s) = length (st_trade_history s)
   \<and> total_pnl (compute_strategy_state_summary s) =
     total_realized_pnl (compute_strategy_state_summary s) +
     total_unrealized_pnl (compute_strategy_state_summary s)
   \<and> trade_pnl None = 0
   \<and> trade_pnl (Some (t\<lparr>t_pnl := Missing\<rparr>)) = 0
   \<and> trade_pnl (Some (t\<lparr>t_pnl := NullVal\<rparr>)) = 0
   \<and> trade_pnl (Some (t\<lparr>t_pnl := Val r\<rparr>)) = r
   \<and> leg_unrealized None = 0
   \<and> leg_unrealized (Some (l\<lparr>l_unrealized_pnl := Missing\<rparr>)) = 0
   \<and> leg_unrealized (Some (l\<lparr>l_unrealized_pnl := NullVal\<rparr>)) = 0
   \<and> leg_unrealized (Some (l\<lparr>l_unrealized_pnl := Val r\<rparr>)) = r"
  by (simp add: compute_strategy_state_summary_def legs_loop_acc sum_pnl_def sum_pnl_acc
      leg_unrealized_def empty_leg_def Let_def)

section \<open>Adding a manual leg\<close>

lemma upper_sides: "upper ''BUY'' = ''BUY''" "upper ''SELL'' = ''SELL''" "upper ''sell'' = ''SELL''"
  "upper ''HOLD'' = ''HOLD''"
  by (simp_all add: upper_def upper_char_def)

lemma prepare_track:
  "prepare_manual_leg sample_env (Some (track_request ''BUY'' (Num 100) (Num (1 / 20)) (Num (1 / 10))))
   = Inr (track_args ''BUY'' (Some 100) (Some (1 / 20)) (Some 95) (Some (1 / 10)) (Some 110))"
  by (simp add: prepare_manual_leg_def track_request_def track_args_def sample_env_def
      missing_required_def read_entry_price_def read_wait_def read_sl_def read_target_def
      read_limit_def upper_sides)

lemma prepare_Inr_fields:
  assumes ok: "prepare_manual_leg e (Some d) = Inr a"
  shows "a_side a = upper (str_of (r_side d))
       \<and> (a_side a = ''BUY'' \<or> a_side a = ''SELL'')
       \<and> read_sl (a_entry_price a) (a_side a) (r_sl_percent d) = Inr (a_sl_percent a, a_sl_price a)
       \<and> read_target (a_entry_price a) (a_side a) (r_target_percent d) =
           Inr (a_target_percent a, a_target_price a)
       \<and> a_entry_price a = (if is_none (r_entry_price d) then None else py_float (r_entry_price d))"
proof -
  let ?side = "upper (str_of (r_side d))"
  obtain mode where mode: "get_default (r_mode d) ''TRACK'' = Some mode"
    using ok by (cases "get_default (r_mode d) ''TRACK''") (simp_all add: prepare_manual_leg_def)
  have mode_ok: "\<not> (mode \<noteq> ''TRACK'' \<and> mode \<noteq> ''NEW'')"
  proof
    assume "mode \<noteq> ''TRACK'' \<and> mode \<noteq> ''NEW''"
    then show False using ok mode by (simp add: prepare_manual_leg_def)
  qed
  have req: "missing_required d = None"
    using ok mode mode_ok by (cases "missing_required d") (simp_all add: prepare_manual_leg_def)
  obtain ep where ep: "read_entry_price mode (r_entry_price d) = Inr ep"
    using ok mode mode_ok req
    by (cases "read_entry_price mode (r_entry_price d)") (simp_all add: prepare_manual_leg_def)
  have side_ok: "\<not> (?side \<noteq> ''BUY'' \<and> ?side \<noteq> ''SELL'')"
  proof
    assume "?side \<noteq> ''BUY'' \<and> ?side \<noteq> ''SELL''"
    then show False using ok mode mode_ok req ep
      by (simp add: prepare_manual_leg_def Let_def)
  qed
  obtain w0 where w: "read_wait mode (r_wait_trade_percent d) (r_wait_baseline_price d) = Inr w0"
    using ok mode mode_ok req ep side_ok
    by (cases "read_wait mode (r_wait_trade_percent d) (r_wait_baseline_price d)")
      (simp_all add: prepare_manual_leg_def Let_def split: prod.splits)
  obtain sl0 where sl0: "read_sl ep ?side (r_sl_percent d) = Inr sl0"
    using ok mode mode_ok req ep side_ok w
    by (cases "read_sl ep ?side (r_sl_percent d)")
      (simp_all add: prepare_manual_leg_def Let_def split: prod.splits)
  obtain slp slv where sl: "read_sl ep ?side (r_sl_percent d) = Inr (slp, slv)"
    using sl0 by (cases sl0) simp
  obtain tg0 where tg0: "read_target ep ?side (r_target_percent d) = Inr tg0"
    using ok mode mode_ok req ep side_ok w sl
    by (cases "read_target ep ?side (r_target_percent d)")
      (simp_all add: prepare_manual_leg_def Let_def split: prod.splits)
  obtain tgp tgv where tg: "read_target ep ?side (r_target_percent d) = Inr (tgp, tgv)"
    using tg0 by (cases tg0) simp
  obtain rl where rl: "read_limit MsgReentryNotInteger MsgReentryNegative (r_reentry_limit d) = Inr rl"
    using ok mode mode_ok req ep side_ok w sl tg
    by (cases "read_limit MsgReentryNotInteger MsgReentryNegative (r_reentry_limit d)")
      (simp_all add: prepare_manual_leg_def Let_def split: prod.splits)
  obtain xl where xl: "read_limit MsgReexecuteNotInteger MsgReexecuteNegative (r_reexecute_limit d) = Inr xl"
    using ok mode mode_ok req ep side_ok w sl tg rl
    by (cases "read_limit MsgReexecuteNotInteger MsgReexecuteNegative (r_reexecute_limit d)")
      (simp_all add: prepare_manual_leg_def Let_def split: prod.splits)
  have fields: "a_side a = ?side" "a_entry_price a = ep" "a_sl_percent a = slp" "a_sl_price a = slv"
    "a_target_percent a = tgp" "a_target_price a = tgv"
    using ok mode mode_ok req ep side_ok w sl tg rl xl
    by (cases w0; auto simp: prepare_manual_leg_def Let_def)+
  have epv: "ep = (if is_none (r_entry_price d) then None else py_float (r_entry_price d))"
    using ep by (auto simp: read_entry_price_def split: if_splits option.splits)
  show ?thesis
    using fields side_ok sl tg epv by simp
qed

lemma read_sl_Inr:
  assumes "read_sl entry_price side v = Inr (slp, slv)"
  shows "(entry_price = None \<or> is_none v \<longrightarrow> slv = None)
       \<and> (\<forall>ep p. entry_price = Some ep \<and> v = Num p \<longrightarrow>
              0 < p \<and> slv = Some (if side = ''BUY'' then ep * (1 - p) else ep * (1 + p)))
       \<and> (\<forall>p. v = Num p \<longrightarrow> 0 < p)"
  using assms
  by (cases v; cases entry_price) (auto simp: read_sl_def split: if_splits)

lemma read_target_Inr:
  assumes "read_target entry_price side v = Inr (tgp, tgv)"
  shows "(entry_price = None \<or> is_none v \<longrightarrow> tgv = None)
       \<and> (\<forall>ep p. entry_price = Some ep \<and> v = Num p \<longrightarrow>
              0 < p \<and> tgv = Some (if side = ''BUY'' then ep * (1 + p) else ep * (1 - p)))
       \<and> (\<forall>p. v = Num p \<longrightarrow> 0 < p)"
  using assms
  by (cases v; cases entry_price) (auto simp: read_target_def split: if_splits)

lemma read_entry_price_400: "read_entry_price mode v = Inl r \<Longrightarrow> \<exists>m. r = Response 400 m"
  by (auto simp: read_entry_price_def split: if_splits option.splits)

lemma read_wait_400: "read_wait mode v w = Inl r \<Longrightarrow> \<exists>m. r = Response 400 m"
  by (auto simp: read_wait_def split: if_splits option.splits)

lemma read_sl_400: "read_sl ep side v = Inl r \<Longrightarrow> \<exists>m. r = Response 400 m"
  by (auto simp: read_sl_def split: if_splits option.splits)

lemma read_target_400: "read_target ep side v = Inl r \<Longrightarrow> \<exists>m. r = Response 400 m"
  by (auto simp: read_target_def split: if_splits option.splits)

lemma read_limit_400: "read_limit a b v = Inl r \<Longrightarrow> \<exists>m. r = Response 400 m"
  by (auto simp: read_limit_def split: if_splits option.splits)

lemma prepare_Inl_400:
  assumes "prepare_manual_leg e body = Inl r"
  shows "\<exists>m. r = Response 400 m"
  using assms
  unfolding prepare_manual_leg_def Let_def
  by (auto split: option.splits if_splits sum.splits prod.splits
      dest: read_entry_price_400 read_wait_400 read_sl_400 read_target_400 read_limit_400)

lemma nonpositive_percent_rejected:
  assumes "(\<exists>p. r_sl_percent d = Num p \<and> p \<le> 0) \<or> (\<exists>q. r_target_percent d = Num q \<and> q \<le> 0)"
  shows "\<exists>m. prepare_manual_leg e (Some d) = Inl (Response 400 m)"
proof (cases "prepare_manual_leg e (Some d)")
  case (Inl r)
  then show ?thesis using prepare_Inl_400 [OF Inl] by simp
next
  case (Inr a)
  have "\<forall>p. r_sl_percent d = Num p \<longrightarrow> 0 < p" "\<forall>q. r_target_percent d = Num q \<longrightarrow> 0 < q"
    using prepare_Inr_fields [OF Inr] read_sl_Inr read_target_Inr by blast+
  then show ?thesis using assms by (auto simp: not_less [symmetric])
qed

text \<open>
  C6.  When the manual-leg request is accepted, the prices handed to the store are:
  with a known entry price and a supplied stop-loss percent, the percent is strictly
  positive and \<open>sl_price = entry_price * (1 - sl_percent)\<close> for BUY and
  \<open>entry_price * (1 + sl_percent)\<close> for SELL; likewise
  \<open>target_price = entry_price * (1 + target_percent)\<close> for BUY and
  \<open>entry_price * (1 - target_percent)\<close> for SELL; a price whose entry price or
  percent is absent is left unset.  A supplied non-positive percent makes the endpoint
  answer 400 and leave the store as it was, whether or not the entry price is known.
\<close>

theorem manual_leg_sl_target_prices:
  "(prepare_manual_leg e (Some d) = Inr a \<longrightarrow>
      (a_side a = ''BUY'' \<or> a_side a = ''SELL'')
      \<and> (a_entry_price a = Some ep \<and> r_sl_percent d = Num p \<longrightarrow>
            0 < p \<and> a_sl_price a = Some (if a_side a = ''BUY'' then ep * (1 - p) else ep * (1 + p)))
      \<and> (a_entry_price a = Some ep \<and> r_target_percent d = Num q \<longrightarrow>
            0 < q \<and> a_target_price a = Some (if a_side a = ''BUY'' then ep * (1 + q) else ep * (1 - q)))
      \<and> (a_entry_price a = None \<or> is_none (r_sl_percent d) \<longrightarrow> a_sl_price a = None)
      \<and> (a_entry_price a = None \<or> is_none (r_target_percent d) \<longrightarrow> a_target_price a = None))
   \<and> ((\<exists>p. r_sl_percent d = Num p \<and> p \<le> 0) \<or> (\<exists>q. r_target_percent d = Num q \<and> q \<le> 0) \<longrightarrow>
        (\<exists>m. create_manual_leg_endpoint e s instance_id (Some d) = (Response 400 m, s)))"
proof -
  have accepted: "(a_side a = ''BUY'' \<or> a_side a = ''SELL'')
      \<and> (a_entry_price a = Some ep \<and> r_sl_percent d = Num p \<longrightarrow>
            0 < p \<and> a_sl_price a = Some (if a_side a = ''BUY'' then ep * (1 - p) else ep * (1 + p)))
      \<and> (a_entry_price a = Some ep \<and> r_target_percent d = Num q \<longrightarrow>
            0 < q \<and> a_target_price a = Some (if a_side a = ''BUY'' then ep * (1 + q) else ep * (1 - q)))
      \<and> (a_entry_price a = None \<or> is_none (r_sl_percent d) \<longrightarrow> a_sl_price a = None)
      \<and> (a_entry_price a = None \<or> is_none (r_target_percent d) \<longrightarrow> a_target_price a = None)"
    if ok: "prepare_manual_leg e (Some d) = Inr a"
  proof -
    note f = prepare_Inr_fields [OF ok]
    have sl: "read_sl (a_entry_price a) (a_side a) (r_sl_percent d) = Inr (a_sl_percent a, a_sl_price a)"
      and tg: "read_target (a_entry_price a) (a_side a) (r_target_percent d) =
                 Inr (a_target_percent a, a_target_price a)"
      and side: "a_side a = ''BUY'' \<or> a_side a = ''SELL''"
      using f by blast+
    show ?thesis
      using read_sl_Inr [OF sl] read_target_Inr [OF tg] side by blast
  qed
  have rejected: "\<exists>m. create_manual_leg_endpoint e s instance_id (Some d) = (Response 400 m, s)"
    if "(\<exists>p. r_sl_percent d = Num p \<and> p \<le> 0) \<or> (\<exists>q. r_target_percent d = Num q \<and> q \<le> 0)"
    using nonpositive_percent_rejected [OF that, of e]
    by (auto simp: create_manual_leg_endpoint_def)
  show ?thesis using accepted rejected by blast
qed

lemma prepare_track_sell:
  "prepare_manual_leg sample_env (Some (track_request ''sell'' (Num 100) (Num (1 / 20)) (Num (1 / 10))))
   = Inr (track_args ''SELL'' (Some 100) (Some (1 / 20)) (Some 105) (Some (1 / 10)) (Some 90))"
  by (simp add: prepare_manual_leg_def track_request_def track_args_def sample_env_def
      missing_required_def read_entry_price_def read_wait_def read_sl_def read_target_def
      read_limit_def upper_sides)

text \<open>
  The theorem at a SELL leg entered at 100 with 5 percent stop-loss and 10 percent
  target (105 and 90), and at a request with a zero stop-loss percent (rejected).
\<close>

theorem manual_leg_sl_target_prices_witness:
  "a_sl_price (track_args ''SELL'' (Some 100) (Some (1 / 20)) (Some 105) (Some (1 / 10)) (Some 90))
     = Some (100 * (1 + 1 / 20))
   \<and> a_target_price (track_args ''SELL'' (Some 100) (Some (1 / 20)) (Some 105) (Some (1 / 10)) (Some 90))
     = Some (100 * (1 - 1 / 10))
   \<and> (\<exists>m. create_manual_leg_endpoint sample_env sample_store ''S1''
             (Some (track_request ''BUY'' (Num 100) (Num 0) Absent)) = (Response 400 m, sample_store))"
  using manual_leg_sl_target_prices [of sample_env
      "track_request ''sell'' (Num 100) (Num (1 / 20)) (Num (1 / 10))"
      "track_args ''SELL'' (Some 100) (Some (1 / 20)) (Some 105) (Some (1 / 10)) (Some 90)"
      100 "1 / 20" "1 / 10" sample_store "''S1''"]
    manual_leg_sl_target_prices [of sample_env
      "track_request ''BUY'' (Num 100) (Num 0) Absent" _ _ _ _ sample_store "''S1''"]
    prepare_track_sell
  by (simp add: track_request_def track_args_def)





lemma prepare_Inr_leg_key:
  assumes "prepare_manual_leg e (Some d) = Inr a"
  shows "a_leg_key a = str_of (r_leg_key d)"
  using assms
  by (auto simp: prepare_manual_leg_def Let_def
      split: option.splits if_splits sum.splits prod.splits)

text \<open>
  C8, as stated, fails: the request is validated before the store is consulted.  A
  request whose leg key is already present but whose side is neither BUY nor SELL is
  answered 400 (side must be BUY or SELL), not with the duplicate-leg conflict.
\<close>

theorem duplicate_key_invalid_side_rejected:
  "states sample_store ''S1'' = Some sample_state
   \<and> r_leg_key (track_request ''HOLD'' (Num 100) Absent Absent) = Some ''MANUAL_1''
   \<and> ''MANUAL_1'' \<in> fst ` set (st_legs sample_state)
   \<and> create_manual_leg_endpoint sample_env sample_store ''S1''
        (Some (track_request ''HOLD'' (Num 100) Absent Absent))
      = (Response 400 MsgSideInvalid, sample_store)"
  by (simp add: sample_store_def sample_state_def track_request_def create_manual_leg_endpoint_def
      prepare_manual_leg_def missing_required_def read_entry_price_def upper_sides)

text \<open>
  C8, amended.  A manual-leg request that passes validation, with no database fault,
  is answered 409 (duplicate leg) when its leg key is already present in the strategy's
  legs, and 404 when the instance does not exist; a request that fails validation is
  answered with that 400 rejection.  In all three cases the store is left as it was.
\<close>

theorem duplicate_leg_after_validation:
  "(prepare_manual_leg e (Some d) = Inr a \<and> e_write_fault e = None \<and>
     states s instance_id = Some st \<and> r_leg_key d = Some k \<and> k \<in> fst ` set (st_legs st) \<longrightarrow>
       create_manual_leg_endpoint e s instance_id (Some d) = (Response 409 MsgDuplicateLeg, s))
   \<and> (prepare_manual_leg e (Some d) = Inr a \<and> e_write_fault e = None \<and>
     states s instance_id = None \<longrightarrow>
       create_manual_leg_endpoint e s instance_id (Some d)
         = (Response 404 (MsgStateNotFound instance_id), s))
   \<and> (prepare_manual_leg e (Some d) = Inl r \<longrightarrow>
       (\<exists>m. r = Response 400 m) \<and>
       create_manual_leg_endpoint e s instance_id (Some d) = (r, s))"
proof -
  have dup: "create_manual_leg_endpoint e s instance_id (Some d) = (Response 409 MsgDuplicateLeg, s)"
    if "prepare_manual_leg e (Some d) = Inr a" "e_write_fault e = None"
      "states s instance_id = Some st" "r_leg_key d = Some k" "k \<in> fst ` set (st_legs st)"
    using that prepare_Inr_leg_key [OF that(1)]
    by (simp add: create_manual_leg_endpoint_def add_manual_strategy_leg_def)
  have nf: "create_manual_leg_endpoint e s instance_id (Some d)
              = (Response 404 (MsgStateNotFound instance_id), s)"
    if "prepare_manual_leg e (Some d) = Inr a" "e_write_fault e = None" "states s instance_id = None"
    using that by (simp add: create_manual_leg_endpoint_def add_manual_strategy_leg_def)
  have rej: "(\<exists>m. r = Response 400 m) \<and> create_manual_leg_endpoint e s instance_id (Some d) = (r, s)"
    if "prepare_manual_leg e (Some d) = Inl r"
    using that prepare_Inl_400 [OF that] by (simp add: create_manual_leg_endpoint_def)
  show ?thesis using dup nf rej by blast
qed

lemma track_request_leg_key: "r_leg_key (track_request sd ep slp tgp) = Some ''MANUAL_1''"
  by (simp add: track_request_def)

text \<open>
  The amended claim at a valid request for an existing leg key (409), for an unknown
  instance (404) and at a request with a zero stop-loss percent (400).
\<close>

theorem duplicate_leg_after_validation_witness:
  "create_manual_leg_endpoint sample_env sample_store ''S1''
     (Some (track_request ''BUY'' (Num 100) (Num (1 / 20)) (Num (1 / 10))))
     = (Response 409 MsgDuplicateLeg, sample_store)
   \<and> create_manual_leg_endpoint sample_env sample_store ''S2''
     (Some (track_request ''BUY'' (Num 100) (Num (1 / 20)) (Num (1 / 10))))
     = (Response 404 (MsgStateNotFound ''S2''), sample_store)
   \<and> create_manual_leg_endpoint sample_env sample_store ''S1''
     (Some (track_request ''BUY'' (Num 100) (Num 0) Absent))
     = (Response 400 MsgSlNotPositive, sample_store)"
proof -
  have r: "prepare_manual_leg sample_env (Some (track_request ''BUY'' (Num 100) (Num 0) Absent))
           = Inl (Response 400 MsgSlNotPositive)"
    by (simp add: prepare_manual_leg_def track_request_def sample_env_def
      missing_required_def read_entry_price_def read_wait_def read_sl_def upper_sides)
  show ?thesis
    using duplicate_leg_after_validation [of sample_env _ _ sample_store "''S1''" sample_state
        "''MANUAL_1''", THEN conjunct1, rule_format, OF conjI [OF prepare_track]]
      duplicate_leg_after_validation [of sample_env _ _ sample_store "''S2''",
        THEN conjunct2, THEN conjunct1, rule_format, OF conjI [OF prepare_track]]
      duplicate_leg_after_validation [of sample_env _ _ _ _ _ _ _, THEN conjunct2, THEN conjunct2,
        rule_format, OF r, of sample_store "''S1''"]
    by (simp add: sample_env_def sample_store_def sample_state_def track_request_leg_key)
qed

section \<open>The sandbox exit\<close>

lemma sandbox_no_price:
  assumes "reference_price b = None"
  shows "\<exists>res. execute_sandbox_market_exit b symbol exchange product quantity action =
           (res, [EvGetLtp symbol exchange, EvGetQuotes symbol exchange]) \<and>
           (res = Raised \<or> res = Returned False None (NoLtp symbol exchange))"
  using assms
  by (cases "ltp_value b"; cases "q_ltp (quotes_reply b)")
    (auto simp: execute_sandbox_market_exit_def reference_price_def quote_price_def Let_def
      split: if_splits)

lemma sandbox_price:
  assumes "reference_price b = Some p"
  shows "execute_sandbox_market_exit b symbol exchange product quantity action =
     (let od = market_order symbol exchange product quantity action;
          r = place_reply b od;
          evs = [EvGetLtp symbol exchange] @
                (if positive (ltp_value b) = None then [EvGetQuotes symbol exchange] else []) @
                [EvPlaceOrder od]
      in if p_success r \<and> (p_status r = Some ''success'' \<or> p_status r = Some ''analyze'')
         then (Returned True (Some p) (ExitedAnalyzer p), evs)
         else (Returned False None
                 (SandboxPlaceFailed (get_default (p_message r) ''Failed to place sandbox exit order'')),
               evs))"
  using assms
  by (cases "ltp_value b"; cases "q_ltp (quotes_reply b)")
    (auto simp: execute_sandbox_market_exit_def reference_price_def quote_price_def Let_def
      split: if_splits)

lemma reference_price_positive: "reference_price b = Some p \<Longrightarrow> 0 < p"
  by (cases "ltp_value b"; cases "quote_price (quotes_reply b)")
    (auto simp: reference_price_def split: if_splits)

text \<open>
  C4.  In analyze mode the engine looks up the last traded price and, only when that is
  missing or not positive, the quote.  When neither gives a positive price the exit fails
  without a fill price and without placing an order.  Otherwise the bookkeeping order for
  the opposite side is placed, and when its placement succeeds with status
  \<open>success\<close> or \<open>analyze\<close> the exit succeeds with the reference price as the fill
  price.
\<close>

theorem sandbox_exit_reference_price:
  assumes mode: "analyze_mode b"
    and od: "od = market_order symbol exchange product quantity
                    (if leg_side = ''BUY'' then ''SELL'' else ''BUY'')"
    and run: "run = execute_market_exit b symbol exchange product quantity leg_side max_retries iv"
  shows "(reference_price b = None \<longrightarrow>
            (\<exists>m. fst run = (False, None, m)) \<and>
            snd run = [EvGetLtp symbol exchange, EvGetQuotes symbol exchange])
       \<and> (reference_price b = Some p \<and> p_success (place_reply b od) \<and>
          (p_status (place_reply b od) = Some ''success'' \<or>
           p_status (place_reply b od) = Some ''analyze'') \<longrightarrow>
            0 < p \<and>
            run = ((True, Some p, ExitedAnalyzer p),
                   [EvGetLtp symbol exchange] @
                   (if positive (ltp_value b) = None then [EvGetQuotes symbol exchange] else []) @
                   [EvPlaceOrder od]))"
proof -
  let ?action = "if leg_side = ''BUY'' then ''SELL'' else ''BUY''"
  have unf: "run = (case execute_sandbox_market_exit b symbol exchange product quantity ?action of
                      (Raised, evs) \<Rightarrow> ((False, None, Unexpected), evs)
                    | (Returned ok fp m, evs) \<Rightarrow> ((ok, fp, m), evs))"
    using mode unfolding run execute_market_exit_def
    by (simp add: Let_def split: prod.splits outcome.splits)
  have none: "(\<exists>m. fst run = (False, None, m)) \<and>
              snd run = [EvGetLtp symbol exchange, EvGetQuotes symbol exchange]"
    if "reference_price b = None"
    using sandbox_no_price [OF that, of symbol exchange product quantity ?action]
    unfolding unf by auto
  have some: "0 < p \<and> run = ((True, Some p, ExitedAnalyzer p),
                   [EvGetLtp symbol exchange] @
                   (if positive (ltp_value b) = None then [EvGetQuotes symbol exchange] else []) @
                   [EvPlaceOrder od])"
    if "reference_price b = Some p" "p_success (place_reply b od)"
      "p_status (place_reply b od) = Some ''success'' \<or> p_status (place_reply b od) = Some ''analyze''"
    using that(2,3) reference_price_positive [OF that(1)]
    unfolding unf sandbox_price [OF that(1)] od [symmetric] Let_def by auto
  show ?thesis using none some by blast
qed

text \<open>
  The theorem at: no last traded price and quote \<open>ltp = 75\<close> (success at 75); both
  unavailable (failure, no order); last traded price 80 (success at 80, no quote lookup).
\<close>

theorem sandbox_exit_reference_price_witness:
  "execute_market_exit (sandbox_broker None (Num 75) ''analyze'')
     ''NIFTY24500CE'' ''NFO'' ''MIS'' 10 ''BUY'' 10 2
   = ((True, Some 75, ExitedAnalyzer 75),
      [EvGetLtp ''NIFTY24500CE'' ''NFO'', EvGetQuotes ''NIFTY24500CE'' ''NFO'',
       EvPlaceOrder (market_order ''NIFTY24500CE'' ''NFO'' ''MIS'' 10 ''SELL'')])
   \<and> (\<exists>m. fst (execute_market_exit (sandbox_broker None Absent ''analyze'')
               ''NIFTY24500CE'' ''NFO'' ''MIS'' 10 ''BUY'' 10 2) = (False, None, m))
   \<and> snd (execute_market_exit (sandbox_broker None Absent ''analyze'')
               ''NIFTY24500CE'' ''NFO'' ''MIS'' 10 ''BUY'' 10 2)
     = [EvGetLtp ''NIFTY24500CE'' ''NFO'', EvGetQuotes ''NIFTY24500CE'' ''NFO'']
   \<and> execute_market_exit (sandbox_broker (Some 80) Absent ''success'')
     ''NIFTY24500CE'' ''NFO'' ''MIS'' 10 ''SELL'' 10 2
   = ((True, Some 80, ExitedAnalyzer 80),
      [EvGetLtp ''NIFTY24500CE'' ''NFO'',
       EvPlaceOrder (market_order ''NIFTY24500CE'' ''NFO'' ''MIS'' 10 ''BUY'')])"
  using sandbox_exit_reference_price [of "sandbox_broker None (Num 75) ''analyze''" _
      "''NIFTY24500CE''" "''NFO''" "''MIS''" 10 "''BUY''" _ 10 2 75, OF _ refl refl]
    sandbox_exit_reference_price [of "sandbox_broker None Absent ''analyze''" _
      "''NIFTY24500CE''" "''NFO''" "''MIS''" 10 "''BUY''" _ 10 2, OF _ refl refl]
    sandbox_exit_reference_price [of "sandbox_broker (Some 80) Absent ''success''" _
      "''NIFTY24500CE''" "''NFO''" "''MIS''" 10 "''SELL''" _ 10 2 80, OF _ refl refl]
  by (simp add: sandbox_broker_def reference_price_def quote_price_def)

section \<open>Manual exit of a leg\<close>

lemma read_order_status_success:
  "read_order_status r = Stop (Returned True fp m) \<Longrightarrow> \<exists>p. fp = Some p \<and> 0 < p"
  by (auto simp: read_order_status_def Let_def not_le split: if_splits option.splits)
    (metis not_le)+

lemma poll_loop_success:
  "poll_loop b oid iv tot k n = (Returned True fp m, evs) \<Longrightarrow> \<exists>p. fp = Some p \<and> 0 < p"
proof (induction n arbitrary: k evs)
  case 0
  then show ?case by simp
next
  case (Suc n)
  show ?case
  proof (cases "read_order_status (status_replies b k)")
    case Continue
    then show ?thesis
      using Suc.prems Suc.IH [of "Suc k"] by (auto split: prod.splits)
  next
    case (Stop res)
    then show ?thesis
      using Suc.prems read_order_status_success [of "status_replies b k" fp m] by auto
  qed
qed

lemma live_success:
  "execute_live_market_exit b symb exch prd q act mr iv = (Returned True fp m, evs) \<Longrightarrow>
   \<exists>p. fp = Some p \<and> 0 < p"
  by (auto simp: execute_live_market_exit_def Let_def split: if_splits prod.splits
      dest: poll_loop_success)

lemma sandbox_success:
  "execute_sandbox_market_exit b symb exch prd q act = (Returned True fp m, evs) \<Longrightarrow>
   \<exists>p. fp = Some p \<and> 0 < p"
  by (cases "ltp_value b"; cases "q_ltp (quotes_reply b)")
    (auto simp: execute_sandbox_market_exit_def Let_def not_le split: if_splits, metis+)

lemma engine_success:
  assumes "execute_market_exit b symb exch prd q side mr iv = ((True, fp, m), evs)"
  shows "\<exists>p. fp = Some p \<and> 0 < p"
  using assms
  by (auto simp: execute_market_exit_def Let_def split: if_splits prod.splits outcome.splits
      dest: live_success sandbox_success)

lemma market_exit_price_Inr:
  assumes "market_exit_price e state lg = (Inr fp, evs)"
  shows "\<exists>p. fp = Some p \<and> 0 < p"
  using assms
  by (auto simp: market_exit_price_def Let_def split: option.splits if_splits prod.splits
      dest: engine_success)

lemma check_exit_request_Inr:
  assumes "check_exit_request d = Inr (exit_status, mode)"
  shows "(x_exit_at_market d \<longrightarrow> mode = AtMarket \<and>
            (exit_status = ''SL_HIT'' \<or> exit_status = ''TARGET_HIT'' \<or> exit_status = ''MANUAL_EXIT''))
       \<and> (\<not> x_exit_at_market d \<longrightarrow>
            (\<exists>p. mode = Priced p \<and> 0 < p \<and> x_exit_price d = Num p) \<and>
            (exit_status = ''SL_HIT'' \<or> exit_status = ''TARGET_HIT''))"
  using assms
  by (cases "x_exit_price d")
    (auto simp: check_exit_request_def not_le split: if_splits option.splits)

lemma check_exit_request_Inl:
  "check_exit_request d = Inl r \<Longrightarrow> \<exists>m. r = Response 400 m"
  by (auto simp: check_exit_request_def split: if_splits option.splits)

lemma check_priced_exit_Some:
  "check_priced_exit lg exit_status p = Some r \<Longrightarrow> \<exists>m. r = Response 400 m"
  by (auto simp: check_priced_exit_def split: if_splits option.splits)

lemma market_exit_price_Inl:
  "market_exit_price e state lg = (Inl r, evs) \<Longrightarrow> resp_code r \<noteq> 200"
  by (auto simp: market_exit_price_def Let_def split: option.splits if_splits prod.splits)

lemma check_priced_exit_consistent:
  assumes "l_entry_price lg = Some entry_price" "entry_price \<noteq> 0" "l_side lg = Some side"
    and "side = ''BUY'' \<or> side = ''SELL''"
    and "exit_status = ''SL_HIT'' \<or> exit_status = ''TARGET_HIT''"
  shows "(check_priced_exit lg exit_status p = None) = price_consistent side exit_status p entry_price"
  using assms
  by (auto simp: check_priced_exit_def price_consistent_def)

lemma endpoint_priced:
  assumes "check_exit_request d = Inr (exit_status, Priced p)"
    and "states s instance_id = Some state"
    and "map_of (st_legs state) leg_key = Some (Some lg)"
    and "l_status lg = Some ''IN_POSITION''"
  shows "manual_exit_leg_endpoint e s instance_id leg_key (Some d) =
     (case check_priced_exit lg exit_status p of
        Some resp \<Rightarrow> (resp, s, [])
      | None \<Rightarrow> commit_exit e s instance_id leg_key (Some p) exit_status
                  (get_default (l_leg_type lg) ''MANUAL'') (get_default (st_status state) ''COMPLETED''))"
  using assms by (simp add: manual_exit_leg_endpoint_def Let_def)

lemma endpoint_market:
  assumes "check_exit_request d = Inr (exit_status, AtMarket)"
    and "states s instance_id = Some state"
    and "map_of (st_legs state) leg_key = Some (Some lg)"
    and "l_status lg = Some ''IN_POSITION''"
  shows "manual_exit_leg_endpoint e s instance_id leg_key (Some d) =
     (case market_exit_price e state lg of
        (Inl resp, evs) \<Rightarrow> (resp, s, evs)
      | (Inr exit_price, evs) \<Rightarrow>
          (case commit_exit e s instance_id leg_key exit_price exit_status
                  (get_default (l_leg_type lg) ''MANUAL'') (get_default (st_status state) ''COMPLETED'') of
             (resp, s', evs') \<Rightarrow> (resp, s', evs @ evs')))"
  using assms by (simp add: manual_exit_leg_endpoint_def Let_def)

text \<open>
  C3, amended.  For every priced manual exit of an IN\_POSITION leg whose entry price is
  known and not zero and whose side is BUY or SELL, the exit price is checked against
  side and entry price before any state change: TARGET\_HIT needs an exit price above
  the entry price for BUY and below it for SELL, SL\_HIT the other way round.  A
  violation, equality included, is answered 400 with the store unchanged and no call
  made; otherwise the endpoint goes on to commit the exit.
\<close>

theorem priced_exit_cross_check:
  assumes req: "check_exit_request d = Inr (exit_status, Priced exit_price)"
    and st: "states s instance_id = Some state"
    and lg: "map_of (st_legs state) leg_key = Some (Some lg)"
    and pos: "l_status lg = Some ''IN_POSITION''"
    and entry: "l_entry_price lg = Some entry_price" "entry_price \<noteq> 0"
    and side: "l_side lg = Some side" "side = ''BUY'' \<or> side = ''SELL''"
  shows "(\<not> price_consistent side exit_status exit_price entry_price \<longrightarrow>
            (\<exists>m. manual_exit_leg_endpoint e s instance_id leg_key (Some d)
                    = (Response 400 m, s, [])))
       \<and> (price_consistent side exit_status exit_price entry_price \<longrightarrow>
            manual_exit_leg_endpoint e s instance_id leg_key (Some d)
              = commit_exit e s instance_id leg_key (Some exit_price) exit_status
                  (get_default (l_leg_type lg) ''MANUAL'')
                  (get_default (st_status state) ''COMPLETED''))"
proof -
  have status: "exit_status = ''SL_HIT'' \<or> exit_status = ''TARGET_HIT''"
    using check_exit_request_Inr [OF req] by (cases "x_exit_at_market d") auto
  note chk = check_priced_exit_consistent [OF entry side status, of exit_price]
  note ep = endpoint_priced [OF req st lg pos, of e]
  have bad: "\<exists>m. manual_exit_leg_endpoint e s instance_id leg_key (Some d) = (Response 400 m, s, [])"
    if npc: "\<not> price_consistent side exit_status exit_price entry_price"
  proof -
    obtain r where r: "check_priced_exit lg exit_status exit_price = Some r"
      using npc chk by (cases "check_priced_exit lg exit_status exit_price") auto
    show ?thesis
      using check_priced_exit_Some [OF r] by (auto simp: ep r)
  qed
  have good: "manual_exit_leg_endpoint e s instance_id leg_key (Some d)
              = commit_exit e s instance_id leg_key (Some exit_price) exit_status
                  (get_default (l_leg_type lg) ''MANUAL'')
                  (get_default (st_status state) ''COMPLETED'')"
    if "price_consistent side exit_status exit_price entry_price"
    using that chk by (simp add: ep)
  show ?thesis using bad good by blast
qed

lemma check_priced_request:
  "0 < p \<Longrightarrow> st = ''SL_HIT'' \<or> st = ''TARGET_HIT'' \<Longrightarrow>
   check_exit_request (priced_request st p) = Inr (st, Priced p)"
  by (auto simp: check_exit_request_def priced_request_def)

lemma commit_sample:
  "commit_exit sample_env (position_store status lg) ''S1'' ''L1'' xp exit_status lt ss =
     (Response 200 (XExited exit_status
        ((position_state status lg)\<lparr>
           st_legs := [(''L1'', Some (lg\<lparr>l_status := Some exit_status\<rparr>))],
           st_trade_history := [Some \<lparr> t_leg_key = ''L1'', t_exit_price = xp,
             t_exit_status = exit_status, t_exit_time = 0, t_pnl = Missing \<rparr>]\<rparr>)),
      \<lparr> states = [''S1'' \<mapsto> (position_state status lg)\<lparr>
           st_legs := [(''L1'', Some (lg\<lparr>l_status := Some exit_status\<rparr>))],
           st_trade_history := [Some \<lparr> t_leg_key = ''L1'', t_exit_price = xp,
             t_exit_status = exit_status, t_exit_time = 0, t_pnl = Missing \<rparr>]\<rparr>],
        overrides = (if lt \<noteq> Some ''MANUAL'' \<and> ss = Some ''RUNNING''
                     then [\<lparr> ov_instance_id = ''S1'', ov_leg_key = ''L1'',
                             ov_type = ''MANUAL_EXIT'', ov_new_value = xp \<rparr>] else []) \<rparr>,
      EvManualExit ''S1'' ''L1'' xp exit_status 0 #
        (if lt \<noteq> Some ''MANUAL'' \<and> ss = Some ''RUNNING''
         then [EvCreateOverride ''S1'' ''L1'' ''MANUAL_EXIT'' xp] else []))"
  by (simp add: commit_exit_def manual_exit_strategy_leg_def create_strategy_override_def
      position_store_def position_state_def sample_env_def Let_def)

text \<open>
  C3, as stated, fails: the guard \<open>if entry_price and side\<close> is a truthiness test, so
  a leg whose entry price is known to be 0 is not cross-checked.  A BUY leg entered at 0
  is exited as SL\_HIT at price 5, above its entry price: the endpoint answers 200 and
  calls the database's exit.
\<close>

theorem zero_entry_price_skips_cross_check:
  "l_entry_price (position_leg ''BUY'' 0 Missing) = Some 0
   \<and> l_side (position_leg ''BUY'' 0 Missing) = Some ''BUY''
   \<and> \<not> price_consistent ''BUY'' ''SL_HIT'' 5 0
   \<and> resp_code (fst (manual_exit_leg_endpoint sample_env
         (position_store ''COMPLETED'' (position_leg ''BUY'' 0 Missing)) ''S1'' ''L1''
         (Some (priced_request ''SL_HIT'' 5)))) = 200
   \<and> snd (snd (manual_exit_leg_endpoint sample_env
         (position_store ''COMPLETED'' (position_leg ''BUY'' 0 Missing)) ''S1'' ''L1''
         (Some (priced_request ''SL_HIT'' 5))))
       = [EvManualExit ''S1'' ''L1'' (Some 5) ''SL_HIT'' 0]"
proof -
  have run: "manual_exit_leg_endpoint sample_env
         (position_store ''COMPLETED'' (position_leg ''BUY'' 0 Missing)) ''S1'' ''L1''
         (Some (priced_request ''SL_HIT'' 5))
       = commit_exit sample_env (position_store ''COMPLETED'' (position_leg ''BUY'' 0 Missing))
           ''S1'' ''L1'' (Some 5) ''SL_HIT'' (Some ''MANUAL'') (Some ''COMPLETED'')"
    by (subst endpoint_priced [where exit_status = "''SL_HIT''" and p = 5
          and state = "position_state ''COMPLETED'' (position_leg ''BUY'' 0 Missing)"
          and lg = "position_leg ''BUY'' 0 Missing"])
      (simp_all add: check_priced_request position_store_def position_state_def position_leg_def
        check_priced_exit_def)
  show ?thesis
    unfolding run commit_sample
    by (simp add: position_leg_def price_consistent_def)
qed

text \<open>
  The amended claim at a BUY leg entered at 100 and exit status TARGET\_HIT: exit price
  99 is rejected, exit price 101 is accepted and committed.
\<close>

theorem priced_exit_cross_check_witness:
  "(\<exists>m. manual_exit_leg_endpoint sample_env
         (position_store ''COMPLETED'' (position_leg ''BUY'' 100 Missing)) ''S1'' ''L1''
         (Some (priced_request ''TARGET_HIT'' 99))
       = (Response 400 m, position_store ''COMPLETED'' (position_leg ''BUY'' 100 Missing), []))
   \<and> resp_code (fst (manual_exit_leg_endpoint sample_env
         (position_store ''COMPLETED'' (position_leg ''BUY'' 100 Missing)) ''S1'' ''L1''
         (Some (priced_request ''TARGET_HIT'' 101)))) = 200
   \<and> snd (snd (manual_exit_leg_endpoint sample_env
         (position_store ''COMPLETED'' (position_leg ''BUY'' 100 Missing)) ''S1'' ''L1''
         (Some (priced_request ''TARGET_HIT'' 101))))
       = [EvManualExit ''S1'' ''L1'' (Some 101) ''TARGET_HIT'' 0]"
proof -
  have lg: "map_of (st_legs (position_state ''COMPLETED'' (position_leg ''BUY'' 100 Missing))) ''L1''
            = Some (Some (position_leg ''BUY'' 100 Missing))"
    "states (position_store ''COMPLETED'' (position_leg ''BUY'' 100 Missing)) ''S1''
            = Some (position_state ''COMPLETED'' (position_leg ''BUY'' 100 Missing))"
    "l_status (position_leg ''BUY'' 100 Missing) = Some ''IN_POSITION''"
    "l_entry_price (position_leg ''BUY'' 100 Missing) = Some 100"
    "l_side (position_leg ''BUY'' 100 Missing) = Some ''BUY''"
    "l_leg_type (position_leg ''BUY'' 100 Missing) = Missing"
    "st_status (position_state ''COMPLETED'' (position_leg ''BUY'' 100 Missing)) = Val ''COMPLETED''"
    by (simp_all add: position_store_def position_state_def position_leg_def)
  have r99: "check_exit_request (priced_request ''TARGET_HIT'' 99) = Inr (''TARGET_HIT'', Priced 99)"
    and r101: "check_exit_request (priced_request ''TARGET_HIT'' 101) = Inr (''TARGET_HIT'', Priced 101)"
    by (simp_all add: check_priced_request)
  show ?thesis
    using priced_exit_cross_check [OF r99 lg(2) lg(1) lg(3) lg(4) _ lg(5), of sample_env]
      priced_exit_cross_check [OF r101 lg(2) lg(1) lg(3) lg(4) _ lg(5), of sample_env]
    by (simp add: price_consistent_def lg commit_sample)
qed

lemma override_due_iff:
  "override_due lg state =
     (get_default (l_leg_type lg) ''MANUAL'' \<noteq> Some ''MANUAL'' \<and>
      get_default (st_status state) ''COMPLETED'' = Some ''RUNNING'')"
  by (cases "l_leg_type lg"; cases "st_status state") (auto simp: override_due_def)

lemma commit_exit_200:
  assumes "commit_exit e s instance_id leg_key xp exit_status lt ss = (Response 200 b, s', evs)"
  shows "\<exists>result s1.
           manual_exit_strategy_leg e s instance_id leg_key xp exit_status (e_now e) = (Inr result, s1)
         \<and> b = XExited exit_status result
         \<and> evs = EvManualExit instance_id leg_key xp exit_status (e_now e) #
                 (if lt \<noteq> Some ''MANUAL'' \<and> ss = Some ''RUNNING''
                  then [EvCreateOverride instance_id leg_key ''MANUAL_EXIT'' xp] else [])"
  using assms
  by (auto simp: commit_exit_def Let_def split: prod.splits sum.splits db_error.splits if_splits)

lemma commit_exit_fault:
  assumes "manual_exit_strategy_leg e s instance_id leg_key xp exit_status (e_now e) = (Inr result, s1)"
  shows "commit_exit (e\<lparr>e_override_fault := True\<rparr>) s instance_id leg_key xp exit_status lt ss =
           (Response 200 (XExited exit_status result), s1,
            EvManualExit instance_id leg_key xp exit_status (e_now e) #
              (if lt \<noteq> Some ''MANUAL'' \<and> ss = Some ''RUNNING''
               then [EvCreateOverride instance_id leg_key ''MANUAL_EXIT'' xp] else []))"
    and "commit_exit (e\<lparr>e_override_fault := False\<rparr>) s instance_id leg_key xp exit_status lt ss =
           (Response 200 (XExited exit_status result),
            s1\<lparr>overrides := overrides s1 @
                 (if lt \<noteq> Some ''MANUAL'' \<and> ss = Some ''RUNNING''
                  then [exit_override instance_id leg_key xp] else [])\<rparr>,
            EvManualExit instance_id leg_key xp exit_status (e_now e) #
              (if lt \<noteq> Some ''MANUAL'' \<and> ss = Some ''RUNNING''
               then [EvCreateOverride instance_id leg_key ''MANUAL_EXIT'' xp] else []))"
proof -
  have m: "manual_exit_strategy_leg (e\<lparr>e_override_fault := f\<rparr>) s instance_id leg_key xp exit_status
             (e_now e) = (Inr result, s1)" for f
    using assms by (simp add: manual_exit_strategy_leg_def cong: option.case_cong)
  show "commit_exit (e\<lparr>e_override_fault := True\<rparr>) s instance_id leg_key xp exit_status lt ss =
           (Response 200 (XExited exit_status result), s1,
            EvManualExit instance_id leg_key xp exit_status (e_now e) #
              (if lt \<noteq> Some ''MANUAL'' \<and> ss = Some ''RUNNING''
               then [EvCreateOverride instance_id leg_key ''MANUAL_EXIT'' xp] else []))"
    by (simp add: commit_exit_def m create_strategy_override_def Let_def)
  show "commit_exit (e\<lparr>e_override_fault := False\<rparr>) s instance_id leg_key xp exit_status lt ss =
           (Response 200 (XExited exit_status result),
            s1\<lparr>overrides := overrides s1 @
                 (if lt \<noteq> Some ''MANUAL'' \<and> ss = Some ''RUNNING''
                  then [exit_override instance_id leg_key xp] else [])\<rparr>,
            EvManualExit instance_id leg_key xp exit_status (e_now e) #
              (if lt \<noteq> Some ''MANUAL'' \<and> ss = Some ''RUNNING''
               then [EvCreateOverride instance_id leg_key ''MANUAL_EXIT'' xp] else []))"
    by (simp add: commit_exit_def m create_strategy_override_def exit_override_def Let_def)
qed

lemma market_exit_price_fault:
  "market_exit_price (e\<lparr>e_override_fault := f\<rparr>) state lg = market_exit_price e state lg"
  by (simp add: market_exit_price_def cong: option.case_cong if_cong)

lemma endpoint_200_request:
  assumes st: "states s instance_id = Some state"
    and lg: "map_of (st_legs state) leg_key = Some (Some lg)"
    and ok: "manual_exit_leg_endpoint e s instance_id leg_key body = (Response 200 b, s', evs)"
  shows "\<exists>d exit_status mode. body = Some d \<and> check_exit_request d = Inr (exit_status, mode) \<and>
           l_status lg = Some ''IN_POSITION''"
proof (cases body)
  case None
  then show ?thesis using ok by (simp add: manual_exit_leg_endpoint_def)
next
  case (Some d)
  show ?thesis
  proof (cases "check_exit_request d")
    case (Inl r)
    then show ?thesis
      using ok Some check_exit_request_Inl [OF Inl] by (auto simp: manual_exit_leg_endpoint_def)
  next
    case (Inr sm)
    obtain exit_status mode where sm: "sm = (exit_status, mode)" by (cases sm)
    have "l_status lg = Some ''IN_POSITION''"
    proof (rule ccontr)
      assume "l_status lg \<noteq> Some ''IN_POSITION''"
      then show False
        using ok Some Inr sm st lg by (simp add: manual_exit_leg_endpoint_def)
    qed
    then show ?thesis using Some Inr sm by simp
  qed
qed

lemma endpoint_200_commit:
  assumes st: "states s instance_id = Some state"
    and lg: "map_of (st_legs state) leg_key = Some (Some lg)"
    and ok: "manual_exit_leg_endpoint e s instance_id leg_key body = (Response 200 b, s', evs)"
  shows "\<exists>xp exit_status evs2.
           commit_exit e s instance_id leg_key xp exit_status
             (get_default (l_leg_type lg) ''MANUAL'') (get_default (st_status state) ''COMPLETED'')
             = (Response 200 b, s', evs2)
         \<and> evs = broker_events e state lg body @ evs2
         \<and> (\<forall>f. manual_exit_leg_endpoint (e\<lparr>e_override_fault := f\<rparr>) s instance_id leg_key body =
                (case commit_exit (e\<lparr>e_override_fault := f\<rparr>) s instance_id leg_key xp exit_status
                        (get_default (l_leg_type lg) ''MANUAL'')
                        (get_default (st_status state) ''COMPLETED'') of
                   (r, s2, ev) \<Rightarrow> (r, s2, broker_events e state lg body @ ev)))"
proof -
  obtain d exit_status mode where body: "body = Some d"
    and req: "check_exit_request d = Inr (exit_status, mode)"
    and pos: "l_status lg = Some ''IN_POSITION''"
    using endpoint_200_request [OF st lg ok] by blast
  show ?thesis
  proof (cases mode)
    case (Priced p)
    note req' = req [unfolded Priced]
    have priced: "\<not> x_exit_at_market d"
      using check_exit_request_Inr [OF req'] by auto
    have chk: "check_priced_exit lg exit_status p = None"
    proof (cases "check_priced_exit lg exit_status p")
      case None
      then show ?thesis .
    next
      case (Some r)
      then show ?thesis
        using ok check_priced_exit_Some [OF Some]
        by (auto simp: body endpoint_priced [OF req' st lg pos])
    qed
    have ev: "broker_events e state lg (Some d) = []"
      using priced by (simp add: broker_events_def)
    show ?thesis
      using ok
      by (intro exI [of _ "Some p"] exI [of _ exit_status] exI [of _ evs])
        (simp add: body endpoint_priced [OF req' st lg pos] chk ev split: prod.splits)
  next
    case AtMarket
    note req' = req [unfolded AtMarket]
    have market: "x_exit_at_market d"
      using check_exit_request_Inr [OF req'] by auto
    obtain res evs0 where m: "market_exit_price e state lg = (res, evs0)"
      by (cases "market_exit_price e state lg")
    have ev: "broker_events e state lg (Some d) = evs0"
      using market m by (simp add: broker_events_def)
    show ?thesis
    proof (cases res)
      case (Inl r)
      then show ?thesis
        using ok market_exit_price_Inl [OF m [unfolded Inl]]
        by (auto simp: body endpoint_market [OF req' st lg pos] m)
    next
      case (Inr fp)
      obtain r2 s2 evs2 where c: "commit_exit e s instance_id leg_key fp exit_status
             (get_default (l_leg_type lg) ''MANUAL'') (get_default (st_status state) ''COMPLETED'')
             = (r2, s2, evs2)"
        by (metis prod_cases3)
      have "r2 = Response 200 b" "s2 = s'" "evs = evs0 @ evs2"
        using ok by (simp_all add: body endpoint_market [OF req' st lg pos] m Inr c)
      then show ?thesis
        using c
        by (intro exI [of _ fp] exI [of _ exit_status] exI [of _ evs2])
          (simp add: body endpoint_market [OF req' st lg pos] market_exit_price_fault m Inr ev)
    qed
  qed
qed

text \<open>
  C5.  Whenever the manual exit reports success, the database has committed the exit,
  and after that call the endpoint asks for a MANUAL\_EXIT override carrying the exit
  price if and only if the leg's type is not MANUAL (a missing type counting as MANUAL)
  and the strategy is RUNNING.  A failing override publication is swallowed: with the
  failure the response and the calls are the same and the store is exactly the committed
  one; without it the store has the override in addition.
\<close>

theorem manual_exit_override_publication:
  assumes st: "states s instance_id = Some state"
    and lg: "map_of (st_legs state) leg_key = Some (Some lg)"
    and ok: "manual_exit_leg_endpoint e s instance_id leg_key body = (Response 200 b, s', evs)"
  shows "\<exists>exit_price exit_status result s1.
           manual_exit_strategy_leg e s instance_id leg_key exit_price exit_status (e_now e)
             = (Inr result, s1)
         \<and> b = XExited exit_status result
         \<and> evs = broker_events e state lg body @
                 EvManualExit instance_id leg_key exit_price exit_status (e_now e) #
                 (if override_due lg state
                  then [EvCreateOverride instance_id leg_key ''MANUAL_EXIT'' exit_price] else [])
         \<and> manual_exit_leg_endpoint (e\<lparr>e_override_fault := True\<rparr>) s instance_id leg_key body
             = (Response 200 b, s1, evs)
         \<and> manual_exit_leg_endpoint (e\<lparr>e_override_fault := False\<rparr>) s instance_id leg_key body
             = (Response 200 b,
                s1\<lparr>overrides := overrides s1 @
                     (if override_due lg state
                      then [exit_override instance_id leg_key exit_price] else [])\<rparr>,
                evs)"
proof -
  let ?lt = "get_default (l_leg_type lg) ''MANUAL''"
  let ?ss = "get_default (st_status state) ''COMPLETED''"
  obtain xp exit_status evs2 where
    c: "commit_exit e s instance_id leg_key xp exit_status ?lt ?ss = (Response 200 b, s', evs2)"
    and evs: "evs = broker_events e state lg body @ evs2"
    and any: "\<And>f. manual_exit_leg_endpoint (e\<lparr>e_override_fault := f\<rparr>) s instance_id leg_key body =
                (case commit_exit (e\<lparr>e_override_fault := f\<rparr>) s instance_id leg_key xp exit_status
                        ?lt ?ss of
                   (r, s2, ev) \<Rightarrow> (r, s2, broker_events e state lg body @ ev))"
    using endpoint_200_commit [OF st lg ok] by blast
  obtain result s1 where
    m: "manual_exit_strategy_leg e s instance_id leg_key xp exit_status (e_now e) = (Inr result, s1)"
    and b: "b = XExited exit_status result"
    and evs2: "evs2 = EvManualExit instance_id leg_key xp exit_status (e_now e) #
                 (if ?lt \<noteq> Some ''MANUAL'' \<and> ?ss = Some ''RUNNING''
                  then [EvCreateOverride instance_id leg_key ''MANUAL_EXIT'' xp] else [])"
    using commit_exit_200 [OF c] by blast
  note due = override_due_iff [of lg state, symmetric]
  show ?thesis
    by (intro exI [of _ xp] exI [of _ exit_status] exI [of _ result] exI [of _ s1])
      (simp add: m b evs evs2 any commit_exit_fault [OF m] due)
qed

lemma position_store_facts:
  "states (position_store status lg) ''S1'' = Some (position_state status lg)"
  "map_of (st_legs (position_state status lg)) ''L1'' = Some (Some lg)"
  "st_status (position_state status lg) = Val status"
  "l_status (position_leg side ep lt) = Some ''IN_POSITION''"
  "l_leg_type (position_leg side ep lt) = lt"
  "l_entry_price (position_leg side ep lt) = Some ep"
  "l_side (position_leg side ep lt) = Some side"
  by (simp_all add: position_store_def position_state_def position_leg_def)

lemma priced_sample_run:
  assumes "0 < p" "st = ''SL_HIT'' \<or> st = ''TARGET_HIT''"
    and "check_priced_exit (position_leg side ep lt) st p = None"
  shows "manual_exit_leg_endpoint sample_env (position_store status (position_leg side ep lt))
           ''S1'' ''L1'' (Some (priced_request st p))
         = commit_exit sample_env (position_store status (position_leg side ep lt)) ''S1'' ''L1''
             (Some p) st (get_default lt ''MANUAL'') (Some status)"
  using assms(3)
  by (simp add: endpoint_priced [OF check_priced_request [OF assms(1,2)] position_store_facts(1,2,4)]
      position_store_facts)

text \<open>
  The theorem at a priced exit of a STRATEGY leg of a RUNNING strategy whose override
  publication fails (still 200, override requested), of a leg without a type, and of a
  STRATEGY leg of a COMPLETED strategy (no override requested).
\<close>

theorem manual_exit_override_publication_witness:
  "resp_code (fst (manual_exit_leg_endpoint (sample_env\<lparr>e_override_fault := True\<rparr>)
       (position_store ''RUNNING'' (position_leg ''BUY'' 100 (Val ''STRATEGY''))) ''S1'' ''L1''
       (Some (priced_request ''TARGET_HIT'' 101)))) = 200
   \<and> snd (snd (manual_exit_leg_endpoint (sample_env\<lparr>e_override_fault := True\<rparr>)
       (position_store ''RUNNING'' (position_leg ''BUY'' 100 (Val ''STRATEGY''))) ''S1'' ''L1''
       (Some (priced_request ''TARGET_HIT'' 101))))
     = [EvManualExit ''S1'' ''L1'' (Some 101) ''TARGET_HIT'' 0,
        EvCreateOverride ''S1'' ''L1'' ''MANUAL_EXIT'' (Some 101)]
   \<and> snd (snd (manual_exit_leg_endpoint sample_env
       (position_store ''RUNNING'' (position_leg ''BUY'' 100 Missing)) ''S1'' ''L1''
       (Some (priced_request ''TARGET_HIT'' 101))))
     = [EvManualExit ''S1'' ''L1'' (Some 101) ''TARGET_HIT'' 0]
   \<and> snd (snd (manual_exit_leg_endpoint sample_env
       (position_store ''COMPLETED'' (position_leg ''BUY'' 100 (Val ''STRATEGY''))) ''S1'' ''L1''
       (Some (priced_request ''TARGET_HIT'' 101))))
     = [EvManualExit ''S1'' ''L1'' (Some 101) ''TARGET_HIT'' 0]"
proof -
  have chk: "check_priced_exit (position_leg ''BUY'' 100 lt) ''TARGET_HIT'' 101 = None" for lt
    by (simp add: check_priced_exit_def position_leg_def)
  have run0: "manual_exit_leg_endpoint sample_env (position_store status (position_leg ''BUY'' 100 lt))
           ''S1'' ''L1'' (Some (priced_request ''TARGET_HIT'' 101))
         = commit_exit sample_env (position_store status (position_leg ''BUY'' 100 lt)) ''S1'' ''L1''
             (Some 101) ''TARGET_HIT'' (get_default lt ''MANUAL'') (Some status)" for lt status
    by (rule priced_sample_run) (simp_all add: chk)
  note run = run0 [unfolded commit_sample]
  have due: "override_due (position_leg ''BUY'' 100 (Val ''STRATEGY''))
               (position_state ''RUNNING'' (position_leg ''BUY'' 100 (Val ''STRATEGY'')))"
    "\<not> override_due (position_leg ''BUY'' 100 Missing)
               (position_state ''RUNNING'' (position_leg ''BUY'' 100 Missing))"
    "\<not> override_due (position_leg ''BUY'' 100 (Val ''STRATEGY''))
               (position_state ''COMPLETED'' (position_leg ''BUY'' 100 (Val ''STRATEGY'')))"
    by (simp_all add: override_due_def position_store_facts)
  show ?thesis
    using manual_exit_override_publication [OF position_store_facts(1,2)
        run [where lt = "Val ''STRATEGY''" and status = "''RUNNING''"]]
      manual_exit_override_publication [OF position_store_facts(1,2) run [where lt = Missing and status = "''RUNNING''"]]
      manual_exit_override_publication [OF position_store_facts(1,2)
        run [where lt = "Val ''STRATEGY''" and status = "''COMPLETED''"]]
    by (auto simp: due broker_events_def priced_request_def sample_env_def)
qed

lemma commit_exit_call:
  "\<exists>resp s' rest. commit_exit e s instance_id leg_key xp exit_status lt ss =
      (resp, s', EvManualExit instance_id leg_key xp exit_status (e_now e) # rest)"
  by (auto simp: commit_exit_def Let_def split: prod.splits sum.splits db_error.splits)

lemma commit_exit_no_fault:
  assumes "e_write_fault e = None" "states s instance_id = Some state"
    and "map_of (st_legs state) leg_key = Some (Some lg)"
  shows "resp_code (fst (commit_exit e s instance_id leg_key xp exit_status lt ss)) = 200"
  using assms
  by (auto simp: commit_exit_def manual_exit_strategy_leg_def Let_def split: prod.splits)

text \<open>
  C10.  For a market exit of an IN\_POSITION leg whose order the engine fills, the exit
  status is the caller's (SL\_HIT, TARGET\_HIT or MANUAL\_EXIT), the fill price is
  positive, and the endpoint goes straight on to commit the fill price with that status:
  the side and entry price cross-check is not consulted, whatever the leg's entry price
  and side are.  The database's exit is called with the fill price and the status, and
  without a database fault the response is 200.
\<close>

theorem market_exit_commits_fill_price:
  assumes market: "x_exit_at_market d"
    and req: "check_exit_request d = Inr (exit_status, mode)"
    and st: "states s instance_id = Some state"
    and lg: "map_of (st_legs state) leg_key = Some (Some lg)"
    and pos: "l_status lg = Some ''IN_POSITION''"
    and fill: "market_exit_price e state lg = (Inr fill_price, evs)"
  shows "(exit_status = ''SL_HIT'' \<or> exit_status = ''TARGET_HIT'' \<or> exit_status = ''MANUAL_EXIT'')
       \<and> (\<exists>p. fill_price = Some p \<and> 0 < p)
       \<and> manual_exit_leg_endpoint e s instance_id leg_key (Some d) =
           (case commit_exit e s instance_id leg_key fill_price exit_status
                   (get_default (l_leg_type lg) ''MANUAL'')
                   (get_default (st_status state) ''COMPLETED'') of
              (resp, s', evs') \<Rightarrow> (resp, s', evs @ evs'))
       \<and> (\<exists>resp s' rest. manual_exit_leg_endpoint e s instance_id leg_key (Some d) =
             (resp, s', evs @ EvManualExit instance_id leg_key fill_price exit_status (e_now e) # rest)
             \<and> (e_write_fault e = None \<longrightarrow> resp_code resp = 200))"
proof -
  have mode: "mode = AtMarket"
    and status: "exit_status = ''SL_HIT'' \<or> exit_status = ''TARGET_HIT'' \<or> exit_status = ''MANUAL_EXIT''"
    using check_exit_request_Inr [OF req] market by auto
  let ?c = "commit_exit e s instance_id leg_key fill_price exit_status
              (get_default (l_leg_type lg) ''MANUAL'') (get_default (st_status state) ''COMPLETED'')"
  have run: "manual_exit_leg_endpoint e s instance_id leg_key (Some d) =
               (case ?c of (resp, s', evs') \<Rightarrow> (resp, s', evs @ evs'))"
    by (simp add: endpoint_market [OF req [unfolded mode] st lg pos] fill)
  obtain resp s' rest where
    c: "?c = (resp, s', EvManualExit instance_id leg_key fill_price exit_status (e_now e) # rest)"
    using commit_exit_call by blast
  have code: "resp_code resp = 200" if "e_write_fault e = None"
    using commit_exit_no_fault [OF that st lg, of fill_price exit_status
        "get_default (l_leg_type lg) ''MANUAL''" "get_default (st_status state) ''COMPLETED''"]
    by (simp add: c)
  have last: "\<exists>resp s' rest. manual_exit_leg_endpoint e s instance_id leg_key (Some d) =
             (resp, s', evs @ EvManualExit instance_id leg_key fill_price exit_status (e_now e) # rest)
             \<and> (e_write_fault e = None \<longrightarrow> resp_code resp = 200)"
    using code by (intro exI [of _ resp] exI [of _ s'] exI [of _ rest]) (simp add: run c)
  show ?thesis
    using status market_exit_price_Inr [OF fill] run last by blast
qed

lemma sandbox_market_exit_price:
  "0 < ltp \<Longrightarrow> side \<noteq> [] \<Longrightarrow>
   market_exit_price (sandbox_env (Some ltp)) state (position_leg side ep lt) =
     (Inr (Some ltp),
      [EvGetLtp ''NIFTY24500CE'' ''NFO'',
       EvPlaceOrder (market_order ''NIFTY24500CE'' ''NFO'' ''MIS'' 10
                       (if side = ''BUY'' then ''SELL'' else ''BUY''))])"
  by (simp add: market_exit_price_def sandbox_env_def sample_env_def sandbox_broker_def
      position_leg_def empty_leg_def execute_market_exit_def execute_sandbox_market_exit_def
      Let_def)

text \<open>
  The theorem at a BUY leg entered at 100 and closed at the market as SL\_HIT in analyze
  mode with last traded price 120: the price is above the entry price, and the exit is
  committed at 120 as SL\_HIT.
\<close>

theorem market_exit_commits_fill_price_witness:
  "\<not> price_consistent ''BUY'' ''SL_HIT'' 120 100
   \<and> (\<exists>resp s' rest.
         manual_exit_leg_endpoint (sandbox_env (Some 120))
           (position_store ''COMPLETED'' (position_leg ''BUY'' 100 Missing)) ''S1'' ''L1''
           (Some (market_request (Some ''SL_HIT'')))
         = (resp, s',
            [EvGetLtp ''NIFTY24500CE'' ''NFO'',
             EvPlaceOrder (market_order ''NIFTY24500CE'' ''NFO'' ''MIS'' 10 ''SELL'')] @
            EvManualExit ''S1'' ''L1'' (Some 120) ''SL_HIT'' 0 # rest)
         \<and> resp_code resp = 200)"
proof -
  have req: "check_exit_request (market_request (Some ''SL_HIT'')) = Inr (''SL_HIT'', AtMarket)"
    "x_exit_at_market (market_request (Some ''SL_HIT''))"
    by (simp_all add: check_exit_request_def market_request_def)
  have fill: "market_exit_price (sandbox_env (Some 120))
                (position_state ''COMPLETED'' (position_leg ''BUY'' 100 Missing))
                (position_leg ''BUY'' 100 Missing)
              = (Inr (Some 120),
                 [EvGetLtp ''NIFTY24500CE'' ''NFO'',
                  EvPlaceOrder (market_order ''NIFTY24500CE'' ''NFO'' ''MIS'' 10 ''SELL'')])"
    by (simp add: sandbox_market_exit_price)
  have env: "e_now (sandbox_env (Some 120)) = 0" "e_write_fault (sandbox_env (Some 120)) = None"
    by (simp_all add: sandbox_env_def sample_env_def)
  obtain resp s' rest where
    "manual_exit_leg_endpoint (sandbox_env (Some 120))
       (position_store ''COMPLETED'' (position_leg ''BUY'' 100 Missing)) ''S1'' ''L1''
       (Some (market_request (Some ''SL_HIT'')))
     = (resp, s',
        [EvGetLtp ''NIFTY24500CE'' ''NFO'',
         EvPlaceOrder (market_order ''NIFTY24500CE'' ''NFO'' ''MIS'' 10 ''SELL'')] @
        EvManualExit ''S1'' ''L1'' (Some 120) ''SL_HIT'' 0 # rest)"
    "resp_code resp = 200"
    using market_exit_commits_fill_price [OF req(2) req(1) position_store_facts(1,2,4) fill]
    unfolding env by blast
  then show ?thesis
    by (auto simp: price_consistent_def)
qed

end
